theory Spec2Isabelle
  imports Complex_Main
begin

section \<open>The Langfuse backend of the trace-query server\<close>

text \<open>
  A shallow embedding of \<^verbatim>\<open>src/opentelemetry_mcp/backends/langfuse.py\<close>
  (class \<^verbatim>\<open>LangfuseBackend\<close>). The records the Langfuse SDK returns are
  typed \<^verbatim>\<open>Any\<close> in the source and are read attribute by attribute, so they are modelled
  as dynamically typed Python values; every attribute access, conversion and constructor
  call that can raise is a branch of the model.
\<close>

subsection \<open>Python values, exceptions and effects\<close>

text \<open>
  Numbers (\<^verbatim>\<open>int\<close> and \<^verbatim>\<open>float\<close>) are rationals; a \<^verbatim>\<open>datetime\<close> is an
  instant in microseconds; a \<^verbatim>\<open>dict\<close> with string keys is an association list. An
  object is the map from its attribute names to their values: an attribute that is not in
  the map raises \<^verbatim>\<open>AttributeError\<close> when read, and \<^verbatim>\<open>hasattr\<close> tests the domain.
\<close>

datatype pyval =
    PNone
  | PBool bool
  | PNum rat
  | PStr string
  | PDatetime int
  | PList "pyval list"
  | PDict "(string \<times> pyval) list"

type_synonym pyobj = "string \<rightharpoonup> pyval"

text \<open>An exception (an instance of a subclass of \<^verbatim>\<open>Exception\<close>): its class and \<^verbatim>\<open>str(e)\<close>.\<close>

datatype exn = Exn (exn_class: string) (exn_str: string)

datatype log_level = DEBUG | INFO | WARNING | ERROR_LEVEL

text \<open>The parameters of one \<^verbatim>\<open>api.trace.list(**params)\<close> call: a key that is not set is \<open>None\<close>.\<close>

record list_params =
  p_name :: "string option"
  p_session_id :: "string option"
  p_from_timestamp :: "int option"
  p_to_timestamp :: "int option"
  p_limit :: "int option"
  p_tag :: "string option"

definition no_params :: list_params where
  "no_params = \<lparr>p_name = None, p_session_id = None, p_from_timestamp = None,
     p_to_timestamp = None, p_limit = None, p_tag = None\<rparr>"

text \<open>
  What a call leaves behind besides its result: the records written to the logger (the
  level, the literal text of the message and the exception it formats, if any) and the
  remote calls issued through the SDK client, in the order they happen.
\<close>

datatype event =
    Log log_level string "exn option"
  | Call_trace_list list_params
  | Call_trace_get string
  | Call_observations_get_many string

text \<open>A computation returns a value or raises, and leaves its events.\<close>

type_synonym 'a comp = "(exn + 'a) \<times> event list"

definition ret :: "'a \<Rightarrow> 'a comp" where
  "ret x = (Inr x, [])"

definition raise_exn :: "exn \<Rightarrow> 'a comp" where
  "raise_exn e = (Inl e, [])"

definition emit :: "event \<Rightarrow> unit comp" where
  "emit ev = (Inr (), [ev])"

definition lift_exn :: "exn + 'a \<Rightarrow> 'a comp" where
  "lift_exn r = (r, [])"

definition bind_comp :: "'a comp \<Rightarrow> ('a \<Rightarrow> 'b comp) \<Rightarrow> 'b comp" where
  "bind_comp m f =
     (case m of
        (Inl e, evs) \<Rightarrow> (Inl e, evs)
      | (Inr x, evs) \<Rightarrow> (case f x of (r, evs') \<Rightarrow> (r, evs @ evs')))"

text \<open>\<^verbatim>\<open>try: m  except Exception as e: h e\<close>\<close>

definition catch :: "'a comp \<Rightarrow> (exn \<Rightarrow> 'a comp) \<Rightarrow> 'a comp" where
  "catch m h =
     (case m of
        (Inl e, evs) \<Rightarrow> (case h e of (r, evs') \<Rightarrow> (r, evs @ evs'))
      | (Inr x, evs) \<Rightarrow> (Inr x, evs))"

text \<open>Truth value testing (\<^verbatim>\<open>if x\<close>, \<^verbatim>\<open>x or y\<close>, \<^verbatim>\<open>not x\<close>).\<close>

fun truthy :: "pyval \<Rightarrow> bool" where
  "truthy PNone = False"
| "truthy (PBool b) = b"
| "truthy (PNum r) = (r \<noteq> 0)"
| "truthy (PStr s) = (s \<noteq> [])"
| "truthy (PDatetime t) = True"
| "truthy (PList xs) = (xs \<noteq> [])"
| "truthy (PDict kvs) = (kvs \<noteq> [])"

definition py_or :: "pyval \<Rightarrow> pyval \<Rightarrow> pyval" where
  "py_or a b = (if truthy a then a else b)"

definition hasattr :: "pyobj \<Rightarrow> string \<Rightarrow> bool" where
  "hasattr obj a = (obj a \<noteq> None)"

definition getattr :: "pyobj \<Rightarrow> string \<Rightarrow> exn + pyval" where
  "getattr obj a =
     (case obj a of None \<Rightarrow> Inl (Exn ''AttributeError'' a) | Some v \<Rightarrow> Inr v)"

text \<open>\<^verbatim>\<open>v.get(key)\<close> and \<^verbatim>\<open>v.get(key, default)\<close>: only a dict has the method.\<close>

fun py_get :: "pyval \<Rightarrow> string \<Rightarrow> pyval \<Rightarrow> exn + pyval" where
  "py_get (PDict kvs) k d = Inr (case map_of kvs k of None \<Rightarrow> d | Some v \<Rightarrow> v)"
| "py_get v k d = Inl (Exn ''AttributeError'' ''get'')"

text \<open>\<^verbatim>\<open>v * 1000\<close>: numbers multiply, sequences repeat, anything else is a type error.\<close>

fun py_mul_1000 :: "pyval \<Rightarrow> exn + pyval" where
  "py_mul_1000 (PNum r) = Inr (PNum (r * 1000))"
| "py_mul_1000 (PBool b) = Inr (PNum (if b then 1000 else 0))"
| "py_mul_1000 (PStr s) = Inr (PStr (concat (replicate 1000 s)))"
| "py_mul_1000 (PList xs) = Inr (PList (concat (replicate 1000 xs)))"
| "py_mul_1000 v = Inl (Exn ''TypeError'' ''unsupported operand type(s) for *'')"

text \<open>\<^verbatim>\<open>for x in v\<close>: the elements of a list, the characters of a string, the keys of a dict.\<close>

fun py_iter :: "pyval \<Rightarrow> exn + pyval list" where
  "py_iter (PList xs) = Inr xs"
| "py_iter (PStr s) = Inr (map (\<lambda>c. PStr [c]) s)"
| "py_iter (PDict kvs) = Inr (map (\<lambda>kv. PStr (fst kv)) kvs)"
| "py_iter v = Inl (Exn ''TypeError'' ''object is not iterable'')"

subsection \<open>What the module takes from outside\<close>

text \<open>
  The backend object and the library behaviour the module relies on, none of it code of
  the module, are the fields of one record:
  \<^item> \<open>url\<close> is \<^verbatim>\<open>self.url\<close>;
  \<^item> \<open>api_trace_list\<close>, \<open>api_trace_get\<close> and \<open>api_observations_get_many\<close> are the three
    calls of the SDK client \<^verbatim>\<open>self._langfuse_client.api\<close>; each returns a response or raises.
    A list response is its \<^verbatim>\<open>data\<close> attribute, which may be \<^verbatim>\<open>None\<close>;
  \<^item> \<open>now\<close> is the reading of \<^verbatim>\<open>datetime.now()\<close>; one request observes one reading;
  \<^item> \<open>fromisoformat\<close> is \<^verbatim>\<open>datetime.fromisoformat\<close> on a string (\<open>None\<close>: it raises);
  \<^item> \<open>float_of_str\<close> is \<^verbatim>\<open>float\<close> on a string (\<open>None\<close>: it raises \<^verbatim>\<open>ValueError\<close>);
  \<^item> \<open>format_value\<close> is the text an f-string gives a value that is not a string;
  \<^item> \<open>span_attributes\<close> is the constructor \<^verbatim>\<open>SpanAttributes(**raw_attrs)\<close> of
    \<^verbatim>\<open>opentelemetry_mcp.attributes\<close>, which validates the raw attributes or raises;
  \<^item> \<open>service_NAME\<close>, \<open>genai_SYSTEM\<close>, \<open>genai_REQUEST_MODEL\<close> and \<open>genai_RESPONSE_MODEL\<close> are the
    attribute keys \<^verbatim>\<open>Service.NAME\<close>, \<^verbatim>\<open>GenAI.SYSTEM\<close>, \<^verbatim>\<open>GenAI.REQUEST_MODEL\<close> and
    \<^verbatim>\<open>GenAI.RESPONSE_MODEL\<close> of \<^verbatim>\<open>opentelemetry_mcp.constants\<close>;
  \<^item> \<open>coerce\<close> is the coercion of a value to the declared type of a filter, which the
    filter engine applies before it compares (the engine is described further down).
\<close>

text \<open>
  Modelled from the spec: \<^verbatim>\<open>FilterType\<close> of \<^verbatim>\<open>opentelemetry_mcp.models\<close>, the type
  a filter declares for its value (section 3 of the specification: string, number or
  boolean).
\<close>

datatype filter_type = STRING | NUMBER | BOOLEAN

record env =
  url :: string
  api_trace_list :: "list_params \<Rightarrow> exn + pyobj list option"
  api_trace_get :: "string \<Rightarrow> exn + pyobj"
  api_observations_get_many :: "string \<Rightarrow> exn + pyobj list option"
  now :: int
  fromisoformat :: "string \<Rightarrow> int option"
  float_of_str :: "string \<Rightarrow> rat option"
  format_value :: "pyval \<Rightarrow> string"
  span_attributes :: "(string \<rightharpoonup> pyval) \<Rightarrow> exn + (string \<rightharpoonup> pyval)"
  service_NAME :: string
  genai_SYSTEM :: string
  genai_REQUEST_MODEL :: string
  genai_RESPONSE_MODEL :: string
  coerce :: "filter_type \<Rightarrow> pyval \<Rightarrow> pyval"

text \<open>\<^verbatim>\<open>float(v)\<close>\<close>

fun py_float :: "env \<Rightarrow> pyval \<Rightarrow> exn + rat" where
  "py_float E (PNum r) = Inr r"
| "py_float E (PBool b) = Inr (if b then 1 else 0)"
| "py_float E (PStr s) =
     (case float_of_str E s of
        None \<Rightarrow> Inl (Exn ''ValueError'' ''could not convert string to float'')
      | Some r \<Rightarrow> Inr r)"
| "py_float E v = Inl (Exn ''TypeError'' ''float() argument must be a string or a real number'')"

text \<open>\<^verbatim>\<open>f"{v}"\<close>\<close>

fun py_format :: "env \<Rightarrow> pyval \<Rightarrow> string" where
  "py_format E (PStr s) = s"
| "py_format E v = format_value E v"

text \<open>\<^verbatim>\<open>timedelta(days=n)\<close> in microseconds.\<close>

definition timedelta_days :: "int \<Rightarrow> int" where
  "timedelta_days n = n * 86400000000"

subsection \<open>Status derivation\<close>

datatype status = OK | ERROR | UNSET

text \<open>
  \<^verbatim>\<open>_langfuse_level_to_status(level)\<close>: the comparisons are Python's \<^verbatim>\<open>==\<close> with a
  string, so a level that is not a string, \<^verbatim>\<open>None\<close> included, falls to the last branch.
\<close>

definition langfuse_level_to_status :: "pyval \<Rightarrow> status" where
  "langfuse_level_to_status level =
     (if level = PStr ''ERROR'' then ERROR
      else if level \<in> set [PStr ''DEFAULT'', PStr ''WARNING''] then OK
      else UNSET)"

text \<open>Sequencing of steps that return a value or raise, without events.\<close>

definition bind_exn :: "exn + 'a \<Rightarrow> ('a \<Rightarrow> exn + 'b) \<Rightarrow> exn + 'b" where
  "bind_exn r f = (case r of Inl e \<Rightarrow> Inl e | Inr x \<Rightarrow> f x)"

subsection \<open>The common data model\<close>

text \<open>
  Modelled from the spec: \<^verbatim>\<open>SpanData\<close> and \<^verbatim>\<open>TraceData\<close> of
  \<^verbatim>\<open>opentelemetry_mcp.models\<close>, whose source is not available. The fields are those
  of section 3 of the specification, prefixed \<open>sd_\<close> and \<open>td_\<close>. The constructors take
  what the backend passes them: an identifier or a name arrives as an untyped value and
  must be a string (a nullable one may be \<^verbatim>\<open>None\<close>), otherwise validation raises.
\<close>

record span_data =
  sd_trace_id :: string
  sd_span_id :: string
  sd_parent_span_id :: "string option"
  sd_operation_name :: string
  sd_service_name :: string
  sd_start_time :: int
  sd_duration_ms :: rat
  sd_status :: status
  sd_attributes :: "string \<rightharpoonup> pyval"

record trace_data =
  td_trace_id :: string
  td_spans :: "span_data list"
  td_start_time :: int
  td_duration_ms :: rat
  td_service_name :: string
  td_root_operation :: string
  td_status :: status

fun as_str :: "pyval \<Rightarrow> exn + string" where
  "as_str (PStr s) = Inr s"
| "as_str v = Inl (Exn ''ValidationError'' ''Input should be a valid string'')"

fun as_optional_str :: "pyval \<Rightarrow> exn + string option" where
  "as_optional_str PNone = Inr None"
| "as_optional_str (PStr s) = Inr (Some s)"
| "as_optional_str v = Inl (Exn ''ValidationError'' ''Input should be a valid string'')"

definition SpanData ::
  "pyval \<Rightarrow> pyval \<Rightarrow> pyval \<Rightarrow> pyval \<Rightarrow> pyval \<Rightarrow> int \<Rightarrow> rat \<Rightarrow> status \<Rightarrow> (string \<rightharpoonup> pyval)
     \<Rightarrow> exn + span_data" where
  "SpanData trace_id span_id parent_span_id operation_name service_name start_time
       duration_ms status attributes =
     bind_exn (as_str trace_id) (\<lambda>tid.
     bind_exn (as_str span_id) (\<lambda>sid.
     bind_exn (as_optional_str parent_span_id) (\<lambda>parent.
     bind_exn (as_str operation_name) (\<lambda>operation.
     bind_exn (as_str service_name) (\<lambda>service.
     Inr \<lparr>sd_trace_id = tid, sd_span_id = sid, sd_parent_span_id = parent,
          sd_operation_name = operation, sd_service_name = service,
          sd_start_time = start_time, sd_duration_ms = duration_ms, sd_status = status,
          sd_attributes = attributes\<rparr>)))))"

definition TraceData ::
  "pyval \<Rightarrow> span_data list \<Rightarrow> int \<Rightarrow> rat \<Rightarrow> pyval \<Rightarrow> pyval \<Rightarrow> status \<Rightarrow> exn + trace_data" where
  "TraceData trace_id spans start_time duration_ms service_name root_operation status =
     bind_exn (as_str trace_id) (\<lambda>tid.
     bind_exn (as_str service_name) (\<lambda>service.
     bind_exn (as_str root_operation) (\<lambda>operation.
     Inr \<lparr>td_trace_id = tid, td_spans = spans, td_start_time = start_time,
          td_duration_ms = duration_ms, td_service_name = service,
          td_root_operation = operation, td_status = status\<rparr>)))"

subsection \<open>Record conversion\<close>

text \<open>
  \<^verbatim>\<open>_determine_trace_status(trace_item, spans)\<close>. Reading \<^verbatim>\<open>trace_item.level\<close> raises
  when the record has no such attribute.
\<close>

definition any_span_error :: "span_data list \<Rightarrow> bool" where
  "any_span_error spans = list_ex (\<lambda>span. sd_status span = ERROR) spans"

definition determine_trace_status :: "pyobj \<Rightarrow> span_data list \<Rightarrow> exn + status" where
  "determine_trace_status trace_item spans =
     bind_exn (getattr trace_item ''level'') (\<lambda>level.
       if level = PStr ''ERROR'' then Inr ERROR
       else if level = PStr ''WARNING'' then
         (if any_span_error spans then Inr ERROR else Inr OK)
       else if level = PStr ''DEFAULT'' then
         (if any_span_error spans then Inr ERROR else Inr OK)
       else Inr UNSET)"

text \<open>
  \<^verbatim>\<open>_parse_timestamp(timestamp)\<close> never raises: a missing value gives the current time,
  and a value \<^verbatim>\<open>fromisoformat\<close> refuses (a malformed string, or a value that is
  neither a string nor a datetime) is logged as a warning and gives the current time.
\<close>

definition endswith_Z :: "string \<Rightarrow> bool" where
  "endswith_Z s = (s \<noteq> [] \<and> last s = CHR ''Z'')"

definition parse_timestamp_failed :: "env \<Rightarrow> exn \<Rightarrow> int comp" where
  "parse_timestamp_failed E e =
     bind_comp (emit (Log WARNING ''Error parsing timestamp'' (Some e))) (\<lambda>_. ret (now E))"

definition parse_timestamp :: "env \<Rightarrow> pyval \<Rightarrow> int comp" where
  "parse_timestamp E timestamp =
     (if \<not> truthy timestamp then ret (now E)
      else case timestamp of
        PDatetime t \<Rightarrow> ret t
      | PStr s \<Rightarrow>
          (case fromisoformat E (if endswith_Z s then butlast s @ ''+00:00'' else s) of
             Some t \<Rightarrow> ret t
           | None \<Rightarrow> parse_timestamp_failed E (Exn ''ValueError'' ''Invalid isoformat string''))
      | _ \<Rightarrow> parse_timestamp_failed E
             (Exn ''TypeError'' ''fromisoformat: argument must be str''))"

text \<open>
  \<^verbatim>\<open>raw_attrs.update(v)\<close> for a value \<open>v\<close> that is true: a dict adds its items; another
  iterable must yield pairs, and a pair is a sequence of two elements. A key that is not
  a string is refused where it is inserted (Python refuses it when the attributes are
  passed as keyword arguments, later in the same \<^verbatim>\<open>try\<close> block).
\<close>

fun py_pair :: "pyval \<Rightarrow> exn + (string \<times> pyval)" where
  "py_pair (PList [PStr k, v]) = Inr (k, v)"
| "py_pair (PStr [a, b]) = Inr ([a], PStr [b])"
| "py_pair (PDict [(a, x), (b, y)]) = Inr (a, PStr b)"
| "py_pair v = Inl (Exn ''TypeError'' ''cannot convert dictionary update sequence element'')"

fun py_pairs :: "pyval list \<Rightarrow> exn + (string \<times> pyval) list" where
  "py_pairs [] = Inr []"
| "py_pairs (x # xs) =
     bind_exn (py_pair x) (\<lambda>kv. bind_exn (py_pairs xs) (\<lambda>kvs. Inr (kv # kvs)))"

definition set_items :: "(string \<rightharpoonup> pyval) \<Rightarrow> (string \<times> pyval) list \<Rightarrow> (string \<rightharpoonup> pyval)" where
  "set_items raw kvs = foldl (\<lambda>m kv. m(fst kv \<mapsto> snd kv)) raw kvs"

fun dict_update :: "(string \<rightharpoonup> pyval) \<Rightarrow> pyval \<Rightarrow> exn + (string \<rightharpoonup> pyval)" where
  "dict_update raw (PDict kvs) = Inr (set_items raw kvs)"
| "dict_update raw (PList xs) = bind_exn (py_pairs xs) (\<lambda>kvs. Inr (set_items raw kvs))"
| "dict_update raw (PStr s) =
     Inl (Exn ''ValueError'' ''dictionary update sequence element #0 has length 1; 2 is required'')"
| "dict_update raw v = Inl (Exn ''TypeError'' ''object is not iterable'')"

text \<open>\<^verbatim>\<open>for tag in tags: raw_attrs[f"tag.{tag}"] = "true"\<close>\<close>

definition add_tags :: "env \<Rightarrow> (string \<rightharpoonup> pyval) \<Rightarrow> pyval list \<Rightarrow> (string \<rightharpoonup> pyval)" where
  "add_tags E raw tags = foldl (\<lambda>m tag. m(''tag.'' @ py_format E tag \<mapsto> PStr ''true'')) raw tags"

text \<open>
  \<^verbatim>\<open>_create_span_from_trace_metadata(trace_item)\<close>: the span that stands for a trace
  with no observations. It has no \<^verbatim>\<open>try\<close> of its own: whatever raises inside it
  propagates to the caller.
\<close>

definition create_span_from_trace_metadata :: "env \<Rightarrow> pyobj \<Rightarrow> span_data comp" where
  "create_span_from_trace_metadata E trace_item =
     bind_comp (lift_exn (getattr trace_item ''name'')) (\<lambda>name.
     bind_comp (lift_exn (getattr trace_item ''id'')) (\<lambda>tid.
     bind_comp (lift_exn (getattr trace_item ''user_id'')) (\<lambda>user_id.
     bind_comp (lift_exn (getattr trace_item ''session_id'')) (\<lambda>session_id.
     bind_comp (lift_exn (getattr trace_item ''version'')) (\<lambda>version.
     bind_comp (ret (set_items Map.empty
        [(service_NAME E, py_or name (PStr '''')),
         (''langfuse.trace.id'', tid),
         (''langfuse.trace.user_id'', py_or user_id (PStr '''')),
         (''langfuse.trace.session_id'', py_or session_id (PStr '''')),
         (''langfuse.trace.version'', py_or version (PStr ''''))])) (\<lambda>raw_attrs.
     bind_comp (lift_exn (getattr trace_item ''metadata'')) (\<lambda>metadata.
     bind_comp (lift_exn (if truthy metadata then dict_update raw_attrs metadata
                          else Inr raw_attrs)) (\<lambda>raw_attrs.
     bind_comp (lift_exn (getattr trace_item ''tags'')) (\<lambda>tags.
     bind_comp (lift_exn (if truthy tags
                          then bind_exn (py_iter tags) (\<lambda>ts. Inr (add_tags E raw_attrs ts))
                          else Inr raw_attrs)) (\<lambda>raw_attrs.
     bind_comp (lift_exn (span_attributes E raw_attrs)) (\<lambda>attrs.
     bind_comp (lift_exn (getattr trace_item ''timestamp'')) (\<lambda>timestamp.
     bind_comp (parse_timestamp E timestamp) (\<lambda>start_time.
     bind_comp (lift_exn (getattr trace_item ''latency_ms'')) (\<lambda>latency_ms.
     bind_comp (lift_exn (py_float E (py_or latency_ms (PNum 0)))) (\<lambda>duration_ms.
     bind_comp (lift_exn (getattr trace_item ''level'')) (\<lambda>level.
     lift_exn (SpanData tid tid PNone (py_or name (PStr ''unknown''))
                 (py_or name (PStr ''unknown'')) start_time duration_ms
                 (langfuse_level_to_status level) attrs)))))))))))))))))"

text \<open>
  The block of \<^verbatim>\<open>_convert_langfuse_observation_to_span\<close> that maps the usage of an
  LLM call (\<^verbatim>\<open>obs.type == "generation" and obs.usage_details\<close>) into the attributes.
\<close>

definition add_generation_attributes ::
  "env \<Rightarrow> pyobj \<Rightarrow> pyval \<Rightarrow> pyval \<Rightarrow> (string \<rightharpoonup> pyval) \<Rightarrow> exn + (string \<rightharpoonup> pyval)" where
  "add_generation_attributes E obs metadata usage_details raw_attrs =
     bind_exn (getattr obs ''model'') (\<lambda>model.
     bind_exn (if truthy model then Inr model
               else py_get metadata ''gen_ai.system'' (PStr '''')) (\<lambda>system.
     bind_exn (py_get usage_details ''prompt_tokens'' PNone) (\<lambda>prompt_tokens.
     bind_exn (py_get usage_details ''completion_tokens'' PNone) (\<lambda>completion_tokens.
     bind_exn (py_get usage_details ''total_tokens'' PNone) (\<lambda>total_tokens.
     Inr (set_items raw_attrs
        [(genai_SYSTEM E, system),
         (genai_REQUEST_MODEL E, model),
         (genai_RESPONSE_MODEL E, model),
         (''gen_ai.usage.prompt_tokens'', prompt_tokens),
         (''gen_ai.usage.completion_tokens'', completion_tokens),
         (''gen_ai.usage.total_tokens'', total_tokens)]))))))"

text \<open>The body of the \<^verbatim>\<open>try\<close> of \<^verbatim>\<open>_convert_langfuse_observation_to_span(trace_id, obs)\<close>.\<close>

definition observation_to_span_body :: "env \<Rightarrow> pyval \<Rightarrow> pyobj \<Rightarrow> span_data comp" where
  "observation_to_span_body E trace_id obs =
     bind_comp (lift_exn (getattr obs ''metadata'')) (\<lambda>metadata.
     bind_comp (lift_exn (if truthy metadata then py_get metadata ''service.name'' PNone
                          else Inr (PStr ''''))) (\<lambda>service.
     bind_comp (lift_exn (getattr obs ''id'')) (\<lambda>oid.
     bind_comp (lift_exn (getattr obs ''type'')) (\<lambda>otype.
     bind_comp (lift_exn (getattr obs ''name'')) (\<lambda>name.
     bind_comp (ret (set_items Map.empty
        [(service_NAME E, service),
         (''langfuse.observation.id'', oid),
         (''langfuse.observation.type'', otype),
         (''langfuse.observation.name'', name)])) (\<lambda>raw_attrs.
     bind_comp (lift_exn (if truthy metadata then dict_update raw_attrs metadata
                          else Inr raw_attrs)) (\<lambda>raw_attrs.
     bind_comp (lift_exn
        (if otype = PStr ''generation''
         then bind_exn (getattr obs ''usage_details'') (\<lambda>usage_details.
                if truthy usage_details
                then add_generation_attributes E obs metadata usage_details raw_attrs
                else Inr raw_attrs)
         else Inr raw_attrs)) (\<lambda>raw_attrs.
     bind_comp (lift_exn (span_attributes E raw_attrs)) (\<lambda>attrs.
     bind_comp (lift_exn (getattr obs ''parent_observation_id'')) (\<lambda>parent.
     bind_comp (ret (case raw_attrs (service_NAME E) of None \<Rightarrow> PStr '''' | Some v \<Rightarrow> v))
       (\<lambda>service_name.
     bind_comp (lift_exn (getattr obs ''start_time'')) (\<lambda>start.
     bind_comp (parse_timestamp E start) (\<lambda>start_time.
     bind_comp (lift_exn (getattr obs ''latency_ms'')) (\<lambda>latency_ms.
     bind_comp (lift_exn (py_float E (py_or latency_ms (PNum 0)))) (\<lambda>duration_ms.
     bind_comp (lift_exn (getattr obs ''level'')) (\<lambda>level.
     lift_exn (SpanData trace_id oid parent name service_name start_time duration_ms
                 (langfuse_level_to_status level) attrs)))))))))))))))))"

text \<open>
  \<^verbatim>\<open>_convert_langfuse_observation_to_span\<close>: whatever the body raises is logged and
  the result is \<^verbatim>\<open>None\<close>.
\<close>

definition convert_langfuse_observation_to_span ::
  "env \<Rightarrow> pyval \<Rightarrow> pyobj \<Rightarrow> span_data option comp" where
  "convert_langfuse_observation_to_span E trace_id obs =
     catch (bind_comp (observation_to_span_body E trace_id obs) (\<lambda>span. ret (Some span)))
       (\<lambda>e. bind_comp
          (emit (Log ERROR_LEVEL ''Error converting Langfuse observation to SpanData'' (Some e)))
          (\<lambda>_. ret None))"

text \<open>
  The loop of \<^verbatim>\<open>_convert_langfuse_trace_to_trace\<close> over the observations: each call
  reads \<^verbatim>\<open>trace_item.id\<close>, and a span is appended when the conversion gave one.
\<close>

fun convert_observations :: "env \<Rightarrow> pyobj \<Rightarrow> pyobj list \<Rightarrow> span_data list comp" where
  "convert_observations E trace_item [] = ret []"
| "convert_observations E trace_item (obs # rest) =
     bind_comp (lift_exn (getattr trace_item ''id'')) (\<lambda>tid.
     bind_comp (convert_langfuse_observation_to_span E tid obs) (\<lambda>span.
     bind_comp (convert_observations E trace_item rest) (\<lambda>spans.
     ret (case span of None \<Rightarrow> spans | Some s \<Rightarrow> s # spans))))"

text \<open>The \<^verbatim>\<open>hasattr\<close> chain that finds the latency of a trace in milliseconds.\<close>

definition seconds_to_ms :: "pyval \<Rightarrow> exn + pyval" where
  "seconds_to_ms v = (if truthy v then py_mul_1000 (py_or v (PNum 0)) else Inr (PNum 0))"

definition trace_latency_ms :: "pyobj \<Rightarrow> exn + pyval" where
  "trace_latency_ms trace_item =
     (if hasattr trace_item ''latency_ms'' then
        bind_exn (getattr trace_item ''latency_ms'') (\<lambda>v. Inr (py_or v (PNum 0)))
      else if hasattr trace_item ''latency'' then
        bind_exn (getattr trace_item ''latency'') seconds_to_ms
      else if hasattr trace_item ''duration'' then
        bind_exn (getattr trace_item ''duration'') seconds_to_ms
      else Inr (PNum 0))"

text \<open>
  The first statement of the \<^verbatim>\<open>try\<close> of \<^verbatim>\<open>_convert_langfuse_trace_to_trace\<close>: the
  spans of the trace. \<^verbatim>\<open>not observations\<close> holds for \<^verbatim>\<open>None\<close> and for the empty list.
\<close>

definition single_root_span :: "env \<Rightarrow> pyobj \<Rightarrow> span_data list comp" where
  "single_root_span E trace_item =
     bind_comp (create_span_from_trace_metadata E trace_item) (\<lambda>span. ret [span])"

definition trace_spans :: "env \<Rightarrow> pyobj \<Rightarrow> pyobj list option \<Rightarrow> span_data list comp" where
  "trace_spans E trace_item observations =
     (case observations of
        None \<Rightarrow> single_root_span E trace_item
      | Some [] \<Rightarrow> single_root_span E trace_item
      | Some (obs # rest) \<Rightarrow>
          bind_comp (convert_observations E trace_item (obs # rest)) (\<lambda>spans.
            if spans = [] then single_root_span E trace_item else ret spans))"

text \<open>The body of the \<^verbatim>\<open>try\<close> of \<^verbatim>\<open>_convert_langfuse_trace_to_trace\<close>.\<close>

definition trace_to_trace_body :: "env \<Rightarrow> pyobj \<Rightarrow> pyobj list option \<Rightarrow> trace_data comp" where
  "trace_to_trace_body E trace_item observations =
     bind_comp (trace_spans E trace_item observations) (\<lambda>spans.
     bind_comp (lift_exn (determine_trace_status trace_item spans)) (\<lambda>status.
     bind_comp (lift_exn (trace_latency_ms trace_item)) (\<lambda>latency_ms.
     bind_comp (lift_exn (getattr trace_item ''id'')) (\<lambda>tid.
     bind_comp (lift_exn (getattr trace_item ''timestamp'')) (\<lambda>timestamp.
     bind_comp (parse_timestamp E timestamp) (\<lambda>start_time.
     bind_comp (lift_exn (py_float E latency_ms)) (\<lambda>duration_ms.
     bind_comp (lift_exn (getattr trace_item ''name'')) (\<lambda>name.
     bind_comp (lift_exn (getattr trace_item ''session_id'')) (\<lambda>session_id.
     lift_exn (TraceData tid spans start_time duration_ms (py_or name (PStr ''unknown''))
                 (py_or session_id (py_or name (PStr ''unknown''))) status))))))))))"

text \<open>
  \<^verbatim>\<open>_convert_langfuse_trace_to_trace(trace_item, observations)\<close>: whatever the body
  raises is logged and the result is \<^verbatim>\<open>None\<close>.
\<close>

definition convert_langfuse_trace_to_trace ::
  "env \<Rightarrow> pyobj \<Rightarrow> pyobj list option \<Rightarrow> trace_data option comp" where
  "convert_langfuse_trace_to_trace E trace_item observations =
     catch (bind_comp (trace_to_trace_body E trace_item observations) (\<lambda>trace. ret (Some trace)))
       (\<lambda>e. bind_comp
          (emit (Log ERROR_LEVEL ''Error converting Langfuse trace to TraceData'' (Some e)))
          (\<lambda>_. ret None))"

subsection \<open>Queries and filters\<close>

text \<open>
  Modelled from the spec: \<^verbatim>\<open>Filter\<close>, \<^verbatim>\<open>FilterOperator\<close>, \<^verbatim>\<open>TraceQuery\<close> and
  \<^verbatim>\<open>SpanQuery\<close> of \<^verbatim>\<open>opentelemetry_mcp.models\<close>, whose source is not available.
  Section 3 of the specification names the operators EQUALS,
  NOT_EQUALS and CONTAINS and leaves others to be declared; section 4.2 speaks of the
  numeric comparisons greater-than and less-than, which stand for the others here. A
  query has the optional shortcuts, a limit, optional tags (a mapping, kept in order) and
  the explicit filter list; a field the constructor is not given has its default (no
  value, no filters).
\<close>

datatype filter_operator = EQUALS | NOT_EQUALS | CONTAINS | GREATER_THAN | LESS_THAN

record filter_cond =
  f_field :: string
  f_operator :: filter_operator
  f_value :: pyval
  f_type :: filter_type

record trace_query =
  tq_service_name :: "string option"
  tq_operation_name :: "string option"
  tq_start_time :: "int option"
  tq_end_time :: "int option"
  tq_limit :: int
  tq_tags :: "(string \<times> string) list option"
  tq_filters :: "filter_cond list"

record span_query =
  sq_service_name :: "string option"
  sq_operation_name :: "string option"
  sq_start_time :: "int option"
  sq_end_time :: "int option"
  sq_limit :: int
  sq_tags :: "(string \<times> string) list option"
  sq_filters :: "filter_cond list"

text \<open>
  Modelled from the spec: \<^verbatim>\<open>get_all_filters()\<close> "composes the structured shortcuts
  (service/operation/tags) and the explicit filter list into one filter list". A shortcut
  that is set becomes an equality filter on its field.
\<close>

definition shortcut_filter :: "string \<Rightarrow> string \<Rightarrow> filter_cond" where
  "shortcut_filter field v =
     \<lparr>f_field = field, f_operator = EQUALS, f_value = PStr v, f_type = STRING\<rparr>"

definition shortcut_filters ::
  "string option \<Rightarrow> string option \<Rightarrow> (string \<times> string) list option \<Rightarrow> filter_cond list" where
  "shortcut_filters service operation tags =
     (case service of None \<Rightarrow> [] | Some s \<Rightarrow> [shortcut_filter ''service_name'' s]) @
     (case operation of None \<Rightarrow> [] | Some s \<Rightarrow> [shortcut_filter ''operation_name'' s]) @
     (case tags of None \<Rightarrow> [] | Some kvs \<Rightarrow> map (\<lambda>kv. shortcut_filter (fst kv) (snd kv)) kvs)"

definition get_all_filters :: "trace_query \<Rightarrow> filter_cond list" where
  "get_all_filters query =
     shortcut_filters (tq_service_name query) (tq_operation_name query) (tq_tags query) @
     tq_filters query"

definition span_get_all_filters :: "span_query \<Rightarrow> filter_cond list" where
  "span_get_all_filters query =
     shortcut_filters (sq_service_name query) (sq_operation_name query) (sq_tags query) @
     sq_filters query"

subsection \<open>The filter engine\<close>

text \<open>
  Modelled from the spec: \<^verbatim>\<open>FilterEngine.apply_filters\<close> of
  \<^verbatim>\<open>opentelemetry_mcp.backends.filter_engine\<close>, whose source is not available. Section
  4.2 of the specification: an item is kept iff all filters match; a well-known field
  resolves off the entity and any other field against its attribute mapping; a field that
  does not resolve makes the filter false; EQUALS and NOT_EQUALS compare the two sides
  after coercing them to the declared type; CONTAINS is substring on strings and
  membership on collections; a numeric comparison is false on a value that is not a
  number. The specification does not fix the coercion, so it is a parameter.
\<close>

definition status_name :: "status \<Rightarrow> string" where
  "status_name s = (case s of OK \<Rightarrow> ''OK'' | ERROR \<Rightarrow> ''ERROR'' | UNSET \<Rightarrow> ''UNSET'')"

definition span_field :: "span_data \<Rightarrow> string \<Rightarrow> pyval option" where
  "span_field sp field =
     (if field = ''trace_id'' then Some (PStr (sd_trace_id sp))
      else if field = ''span_id'' then Some (PStr (sd_span_id sp))
      else if field = ''operation_name'' then Some (PStr (sd_operation_name sp))
      else if field = ''service_name'' then Some (PStr (sd_service_name sp))
      else if field = ''duration_ms'' then Some (PNum (sd_duration_ms sp))
      else if field = ''status'' then Some (PStr (status_name (sd_status sp)))
      else sd_attributes sp field)"

definition trace_field :: "trace_data \<Rightarrow> string \<Rightarrow> pyval option" where
  "trace_field trace field =
     (if field = ''trace_id'' then Some (PStr (td_trace_id trace))
      else if field = ''service_name'' then Some (PStr (td_service_name trace))
      else if field = ''root_operation'' then Some (PStr (td_root_operation trace))
      else if field = ''duration_ms'' then Some (PNum (td_duration_ms trace))
      else if field = ''status'' then Some (PStr (status_name (td_status trace)))
      else None)"

definition is_substring :: "string \<Rightarrow> string \<Rightarrow> bool" where
  "is_substring v s = list_ex (\<lambda>i. take (length v) (drop i s) = v) [0..<Suc (length s)]"

fun contains_value :: "pyval \<Rightarrow> pyval \<Rightarrow> bool" where
  "contains_value (PStr s) (PStr v) = is_substring v s"
| "contains_value (PList xs) v = (v \<in> set xs)"
| "contains_value x v = False"

fun compare_numbers :: "(rat \<Rightarrow> rat \<Rightarrow> bool) \<Rightarrow> pyval \<Rightarrow> pyval \<Rightarrow> bool" where
  "compare_numbers cmp (PNum a) (PNum b) = cmp a b"
| "compare_numbers cmp x v = False"

definition operator_matches ::
  "(filter_type \<Rightarrow> pyval \<Rightarrow> pyval) \<Rightarrow> filter_cond \<Rightarrow> pyval \<Rightarrow> bool" where
  "operator_matches co f x =
     (case f_operator f of
        EQUALS \<Rightarrow> co (f_type f) x = co (f_type f) (f_value f)
      | NOT_EQUALS \<Rightarrow> co (f_type f) x \<noteq> co (f_type f) (f_value f)
      | CONTAINS \<Rightarrow> contains_value x (f_value f)
      | GREATER_THAN \<Rightarrow> compare_numbers (\<lambda>a b. a > b) x (f_value f)
      | LESS_THAN \<Rightarrow> compare_numbers (\<lambda>a b. a < b) x (f_value f))"

definition filter_matches ::
  "(filter_type \<Rightarrow> pyval \<Rightarrow> pyval) \<Rightarrow> ('e \<Rightarrow> string \<Rightarrow> pyval option) \<Rightarrow> 'e \<Rightarrow> filter_cond \<Rightarrow> bool" where
  "filter_matches co resolve item f =
     (case resolve item (f_field f) of
        None \<Rightarrow> False
      | Some x \<Rightarrow> operator_matches co f x)"

definition apply_filters ::
  "(filter_type \<Rightarrow> pyval \<Rightarrow> pyval) \<Rightarrow> ('e \<Rightarrow> string \<Rightarrow> pyval option) \<Rightarrow> 'e list \<Rightarrow> filter_cond list
     \<Rightarrow> 'e list" where
  "apply_filters co resolve items filters =
     filter (\<lambda>item. list_all (filter_matches co resolve item) filters) items"

subsection \<open>The operations of the backend\<close>

text \<open>\<^verbatim>\<open>get_supported_operators()\<close>\<close>

definition get_supported_operators :: "filter_operator set" where
  "get_supported_operators = {EQUALS, NOT_EQUALS, CONTAINS}"

text \<open>
  The parameters \<^verbatim>\<open>search_traces\<close> builds for the SDK (\<^verbatim>\<open>params\<close>, one assignment
  after the other). \<^verbatim>\<open>if query.service_name\<close> and \<^verbatim>\<open>if query.operation_name\<close> hold for
  a string that is not empty, \<^verbatim>\<open>if query.start_time\<close> and \<^verbatim>\<open>if query.end_time\<close> for
  any datetime, and \<^verbatim>\<open>if query.tags\<close> for a mapping that is not empty, of which only the
  first key is sent.
\<close>

definition trace_list_params :: "env \<Rightarrow> trace_query \<Rightarrow> list_params" where
  "trace_list_params E query =
     (let params = no_params;
          params = (case tq_service_name query of
                      None \<Rightarrow> params
                    | Some s \<Rightarrow> if s \<noteq> [] then params\<lparr>p_name := Some s\<rparr> else params);
          params = (case tq_operation_name query of
                      None \<Rightarrow> params
                    | Some s \<Rightarrow> if s \<noteq> [] then params\<lparr>p_session_id := Some s\<rparr> else params);
          params = (case tq_start_time query of
                      Some t \<Rightarrow> params\<lparr>p_from_timestamp := Some t\<rparr>
                    | None \<Rightarrow> params\<lparr>p_from_timestamp := Some (now E - timedelta_days 1)\<rparr>);
          params = (case tq_end_time query of
                      None \<Rightarrow> params
                    | Some t \<Rightarrow> params\<lparr>p_to_timestamp := Some t\<rparr>);
          params = params\<lparr>p_limit := Some (min (tq_limit query) 100)\<rparr>;
          params = (case tq_tags query of
                      None \<Rightarrow> params
                    | Some [] \<Rightarrow> params
                    | Some (kv # kvs) \<Rightarrow> params\<lparr>p_tag := Some (fst kv)\<rparr>)
      in params)"

text \<open>\<^verbatim>\<open>response.data or []\<close>\<close>

definition data_or_empty :: "'a list option \<Rightarrow> 'a list" where
  "data_or_empty d = (case d of None \<Rightarrow> [] | Some xs \<Rightarrow> xs)"

text \<open>
  The loop of \<^verbatim>\<open>search_traces\<close> that converts the records of the response: a record
  whose conversion gave \<^verbatim>\<open>None\<close> is left out.
\<close>

fun convert_traces :: "env \<Rightarrow> pyobj list \<Rightarrow> trace_data list comp" where
  "convert_traces E [] = ret []"
| "convert_traces E (trace_item # rest) =
     bind_comp (convert_langfuse_trace_to_trace E trace_item None) (\<lambda>trace.
     bind_comp (convert_traces E rest) (\<lambda>traces.
     ret (case trace of None \<Rightarrow> traces | Some t \<Rightarrow> t # traces)))"

text \<open>The filters \<^verbatim>\<open>search_traces\<close> keeps for the filter engine.\<close>

definition client_filters :: "trace_query \<Rightarrow> filter_cond list" where
  "client_filters query =
     filter (\<lambda>f. f_operator f \<notin> get_supported_operators) (get_all_filters query)"

text \<open>\<^verbatim>\<open>search_traces(query)\<close>\<close>

definition search_traces :: "env \<Rightarrow> trace_query \<Rightarrow> trace_data list comp" where
  "search_traces E query =
     bind_comp (emit (Log DEBUG ''Searching traces with query'' None)) (\<lambda>_.
     bind_comp (ret (trace_list_params E query)) (\<lambda>params.
     bind_comp
       (catch
          (bind_comp (emit (Call_trace_list params)) (\<lambda>_.
           bind_comp (lift_exn (api_trace_list E params)) (\<lambda>response.
           ret (data_or_empty response))))
          (\<lambda>e. bind_comp (emit (Log ERROR_LEVEL ''Error querying Langfuse'' (Some e)))
             (\<lambda>_. raise_exn e))) (\<lambda>traces_data.
     bind_comp (emit (Log DEBUG ''Found traces from Langfuse'' None)) (\<lambda>_.
     bind_comp (convert_traces E traces_data) (\<lambda>traces.
     if client_filters query \<noteq> [] then
       bind_comp (emit (Log INFO ''Applying filters client-side'' None)) (\<lambda>_.
       ret (apply_filters (coerce E) trace_field traces (client_filters query)))
     else ret traces)))))"

text \<open>
  \<^verbatim>\<open>search_spans(query)\<close>: the trace query is built from five fields of the span
  query; its other fields have their defaults.
\<close>

definition span_trace_query :: "span_query \<Rightarrow> trace_query" where
  "span_trace_query query =
     \<lparr>tq_service_name = sq_service_name query,
      tq_operation_name = sq_operation_name query,
      tq_start_time = sq_start_time query,
      tq_end_time = sq_end_time query,
      tq_limit = sq_limit query,
      tq_tags = None,
      tq_filters = []\<rparr>"

definition search_spans :: "env \<Rightarrow> span_query \<Rightarrow> span_data list comp" where
  "search_spans E query =
     bind_comp (emit (Log DEBUG ''Searching spans with query'' None)) (\<lambda>_.
     bind_comp (search_traces E (span_trace_query query)) (\<lambda>traces.
     bind_comp (ret (concat (map td_spans traces))) (\<lambda>all_spans.
     if span_get_all_filters query \<noteq> [] then
       ret (apply_filters (coerce E) span_field all_spans (span_get_all_filters query))
     else ret all_spans)))"

text \<open>
  \<^verbatim>\<open>get_trace(trace_id)\<close>: the whole body is one \<^verbatim>\<open>try\<close> whose handler logs the
  exception and raises it again. The result is what the conversion returns, which is
  \<^verbatim>\<open>None\<close> when the conversion failed.
\<close>

definition get_trace :: "env \<Rightarrow> string \<Rightarrow> trace_data option comp" where
  "get_trace E trace_id =
     bind_comp (emit (Log DEBUG ''Fetching trace'' None)) (\<lambda>_.
     catch
       (bind_comp (emit (Call_trace_get trace_id)) (\<lambda>_.
        bind_comp (lift_exn (api_trace_get E trace_id)) (\<lambda>trace_item.
        bind_comp (emit (Call_observations_get_many trace_id)) (\<lambda>_.
        bind_comp (lift_exn (api_observations_get_many E trace_id)) (\<lambda>observations_response.
        convert_langfuse_trace_to_trace E trace_item
          (Some (data_or_empty observations_response)))))))
       (\<lambda>e. bind_comp (emit (Log ERROR_LEVEL ''Error fetching trace'' (Some e)))
          (\<lambda>_. raise_exn e)))"

text \<open>
  Modelled from the spec: \<^verbatim>\<open>HealthCheckResponse\<close> of \<^verbatim>\<open>opentelemetry_mcp.attributes\<close>,
  whose source is not available, with the fields of section 3 of the specification.
\<close>

record health_check_response =
  hc_status :: string
  hc_backend :: string
  hc_url :: string
  hc_error :: "string option"

text \<open>\<^verbatim>\<open>health_check()\<close>\<close>

definition health_check :: "env \<Rightarrow> health_check_response comp" where
  "health_check E =
     catch
       (bind_comp (emit (Call_trace_list (no_params\<lparr>p_limit := Some 1\<rparr>))) (\<lambda>_.
        bind_comp (lift_exn (api_trace_list E (no_params\<lparr>p_limit := Some 1\<rparr>))) (\<lambda>response.
        ret \<lparr>hc_status = ''healthy'', hc_backend = ''langfuse'', hc_url = url E,
             hc_error = None\<rparr>)))
       (\<lambda>e. bind_comp (emit (Log ERROR_LEVEL ''Health check failed'' (Some e))) (\<lambda>_.
          ret \<lparr>hc_status = ''unhealthy'', hc_backend = ''langfuse'', hc_url = url E,
               hc_error = Some (exn_str e)\<rparr>))"

subsection \<open>Observing a call\<close>

text \<open>
  The conversions only write to the logger: \<open>only_logs\<close> holds for a list of events
  without remote calls. \<open>trace_list_calls\<close> gives the parameters of the
  \<^verbatim>\<open>api.trace.list\<close> calls among the events of a call, in their order.
\<close>

definition only_logs :: "event list \<Rightarrow> bool" where
  "only_logs evs = list_all (\<lambda>ev. case ev of Log l m e \<Rightarrow> True | _ \<Rightarrow> False) evs"

definition trace_list_calls :: "event list \<Rightarrow> list_params list" where
  "trace_list_calls evs =
     List.map_filter (\<lambda>ev. case ev of Call_trace_list p \<Rightarrow> Some p | _ \<Rightarrow> None) evs"

text \<open>
  What \<^verbatim>\<open>search_traces\<close> gets for one record of the response: the trace, or \<open>None\<close>
  when the conversion failed.
\<close>

definition converted_trace :: "env \<Rightarrow> pyobj \<Rightarrow> trace_data option" where
  "converted_trace E trace_item =
     (case fst (convert_langfuse_trace_to_trace E trace_item None) of
        Inl e \<Rightarrow> None
      | Inr r \<Rightarrow> r)"

text \<open>
  What \<^verbatim>\<open>_convert_langfuse_trace_to_trace\<close> gets for one observation: the span, or
  \<open>None\<close> when the conversion failed.
\<close>

definition converted_span :: "env \<Rightarrow> pyval \<Rightarrow> pyobj \<Rightarrow> span_data option" where
  "converted_span E trace_id obs =
     (case fst (convert_langfuse_observation_to_span E trace_id obs) of
        Inl e \<Rightarrow> None
      | Inr r \<Rightarrow> r)"

subsection \<open>Example records\<close>

text \<open>
  Inputs at which the properties below are evaluated. \<open>example_trace\<close> is a trace record
  with every attribute the conversion reads; \<open>trace_without_latency_ms\<close> is a record
  that has its latency in seconds under \<^verbatim>\<open>latency\<close> and no \<^verbatim>\<open>latency_ms\<close>, one of the
  shapes the \<^verbatim>\<open>hasattr\<close> chain of the conversion provides for. \<open>example_observation\<close> is
  an observation with every attribute; \<open>generation_without_model\<close> is an LLM call with
  usage details, no model and no metadata.
\<close>

definition example_trace :: "string \<Rightarrow> pyval \<Rightarrow> pyobj" where
  "example_trace tid level = map_of
     [(''id'', PStr tid), (''name'', PStr ''checkout''), (''user_id'', PNone),
      (''session_id'', PStr ''session-1''), (''version'', PNone), (''metadata'', PNone),
      (''tags'', PList [PStr ''prod'']), (''timestamp'', PDatetime 1000),
      (''latency_ms'', PNum 12), (''level'', level)]"

definition trace_without_latency_ms :: "string \<Rightarrow> pyobj" where
  "trace_without_latency_ms tid = map_of
     [(''id'', PStr tid), (''name'', PStr ''checkout''), (''user_id'', PNone),
      (''session_id'', PNone), (''version'', PNone), (''metadata'', PNone),
      (''tags'', PList []), (''timestamp'', PDatetime 2000),
      (''latency'', PNum 3), (''level'', PStr ''DEFAULT'')]"

definition example_observation :: "string \<Rightarrow> pyval \<Rightarrow> pyobj" where
  "example_observation oid level = map_of
     [(''id'', PStr oid), (''type'', PStr ''span''), (''name'', PStr ''lookup''),
      (''metadata'', PNone), (''parent_observation_id'', PNone),
      (''start_time'', PDatetime 1500), (''latency_ms'', PNum 4), (''level'', level)]"

definition generation_without_model :: "string \<Rightarrow> pyobj" where
  "generation_without_model oid = map_of
     [(''id'', PStr oid), (''type'', PStr ''generation''), (''name'', PStr ''completion''),
      (''metadata'', PNone), (''usage_details'', PDict [(''total_tokens'', PNum 7)]),
      (''model'', PNone), (''parent_observation_id'', PNone),
      (''start_time'', PDatetime 1600), (''latency_ms'', PNum 900), (''level'', PStr ''DEFAULT'')]"

definition example_span :: "string \<Rightarrow> status \<Rightarrow> span_data" where
  "example_span sid st =
     \<lparr>sd_trace_id = ''t1'', sd_span_id = sid, sd_parent_span_id = None,
      sd_operation_name = ''lookup'', sd_service_name = ''checkout'', sd_start_time = 1500,
      sd_duration_ms = 4, sd_status = st, sd_attributes = Map.empty\<rparr>"

text \<open>
  An environment whose backend holds one trace, \<open>t1\<close>, with no observations, and whose
  library functions are the simplest ones: no string parses as a date or a number, the
  attributes are accepted as they are, and coercion leaves a value as it is.
\<close>

definition example_env :: env where
  "example_env =
     \<lparr>url = ''https://cloud.langfuse.com'',
      api_trace_list = (\<lambda>p. Inr (Some [example_trace ''t1'' (PStr ''DEFAULT'')])),
      api_trace_get = (\<lambda>i. Inr (example_trace i (PStr ''DEFAULT''))),
      api_observations_get_many = (\<lambda>i. Inr (Some [])),
      now = 90000000000,
      fromisoformat = (\<lambda>s. None),
      float_of_str = (\<lambda>s. None),
      format_value = (\<lambda>v. ''?''),
      span_attributes = (\<lambda>raw. Inr raw),
      service_NAME = ''service.name'',
      genai_SYSTEM = ''gen_ai.system'',
      genai_REQUEST_MODEL = ''gen_ai.request.model'',
      genai_RESPONSE_MODEL = ''gen_ai.response.model'',
      coerce = (\<lambda>ty v. v)\<rparr>"

definition trace_without_level :: "string \<Rightarrow> pyobj" where
  "trace_without_level tid = map_of
     [(''id'', PStr tid), (''name'', PStr ''checkout''), (''user_id'', PNone),
      (''session_id'', PNone), (''version'', PNone), (''metadata'', PNone),
      (''tags'', PList []), (''timestamp'', PDatetime 3000), (''latency_ms'', PNum 5)]"

text \<open>
  Backends for the examples: one whose trace records have their latency under
  \<^verbatim>\<open>latency\<close>, one whose trace records have no \<^verbatim>\<open>level\<close>, and one whose every call
  raises.
\<close>

definition env_latency_in_seconds :: env where
  "env_latency_in_seconds =
     example_env\<lparr>api_trace_get := (\<lambda>i. Inr (trace_without_latency_ms i))\<rparr>"

definition env_without_level :: env where
  "env_without_level = example_env\<lparr>api_trace_get := (\<lambda>i. Inr (trace_without_level i))\<rparr>"

definition env_unreachable :: env where
  "env_unreachable =
     example_env\<lparr>api_trace_list := (\<lambda>p. Inl (Exn ''ConnectionError'' ''connection refused'')),
                 api_trace_get := (\<lambda>i. Inl (Exn ''ConnectionError'' ''connection refused'')),
                 api_observations_get_many :=
                   (\<lambda>i. Inl (Exn ''ConnectionError'' ''connection refused''))\<rparr>"

definition env_observations_unreachable :: env where
  "env_observations_unreachable =
     example_env\<lparr>api_observations_get_many :=
                   (\<lambda>i. Inl (Exn ''ConnectionError'' ''connection refused''))\<rparr>"

text \<open>A trace query with a limit and, optionally, a start time, and nothing else.\<close>

definition example_query :: "int \<Rightarrow> int option \<Rightarrow> trace_query" where
  "example_query n start =
     \<lparr>tq_service_name = None, tq_operation_name = None, tq_start_time = start,
      tq_end_time = None, tq_limit = n, tq_tags = None, tq_filters = []\<rparr>"

text \<open>
  The composition section 4.1 of the specification prescribes for \<^verbatim>\<open>search_spans\<close>, in
  the specification's words and apart from \<open>search_spans\<close>, the translation of the
  source, to be compared with it: "calling \<^verbatim>\<open>search_traces\<close> with the equivalent
  trace-level fields and flattening \<^verbatim>\<open>spans\<close> across all returned traces, then applying
  span-specific filters via the Filter Engine".

  \<open>carries_trace_level_fields sq tq\<close> says that the trace query \<open>tq\<close> carries the
  equivalent trace-level fields of the span query \<open>sq\<close>: the fields by which a query
  selects traces at the backend (the service name, the operation name, the two ends of
  the time window and the limit) are in \<open>tq\<close> what they are in \<open>sq\<close>.
  \<open>search_spans_spec E tq query\<close> is the composition over a trace query \<open>tq\<close>: the spans
  of the traces \<^verbatim>\<open>search_traces\<close> returns for \<open>tq\<close>, flattened into one list and
  filtered by the filter engine with the filters \<^verbatim>\<open>get_all_filters()\<close> composes from the
  span query.
\<close>

definition carries_trace_level_fields :: "span_query \<Rightarrow> trace_query \<Rightarrow> bool" where
  "carries_trace_level_fields sq tq =
     (tq_service_name tq = sq_service_name sq \<and>
      tq_operation_name tq = sq_operation_name sq \<and>
      tq_start_time tq = sq_start_time sq \<and>
      tq_end_time tq = sq_end_time sq \<and>
      tq_limit tq = sq_limit sq)"

definition search_spans_spec :: "env \<Rightarrow> trace_query \<Rightarrow> span_query \<Rightarrow> span_data list comp" where
  "search_spans_spec E tq query =
     bind_comp (search_traces E tq) (\<lambda>traces.
     ret (apply_filters (coerce E) span_field (concat (map td_spans traces))
            (span_get_all_filters query)))"

text \<open>
  A span query for a service and nothing else, and a span query with every field set:
  the service \<open>checkout\<close>, the operation \<open>session-1\<close>, the window from 5000 to 9000,
  the limit 7, one tag and one explicit filter.
\<close>

definition example_span_query :: "string option \<Rightarrow> span_query" where
  "example_span_query service =
     \<lparr>sq_service_name = service, sq_operation_name = None, sq_start_time = None,
      sq_end_time = None, sq_limit = 20, sq_tags = None, sq_filters = []\<rparr>"

definition full_span_query :: span_query where
  "full_span_query =
     \<lparr>sq_service_name = Some ''checkout'', sq_operation_name = Some ''session-1'',
      sq_start_time = Some 5000, sq_end_time = Some 9000, sq_limit = 7,
      sq_tags = Some [(''env'', ''prod'')],
      sq_filters = [\<lparr>f_field = ''duration_ms'', f_operator = GREATER_THAN,
                      f_value = PNum 1, f_type = NUMBER\<rparr>]\<rparr>"

text \<open>
  A backend whose response holds three trace records, the second with its latency
  under \<^verbatim>\<open>latency\<close>; three observations, the second an LLM call without model and
  metadata; and a query whose only filter asks for the traces with status ERROR.
\<close>

definition env_three_traces :: env where
  "env_three_traces =
     example_env\<lparr>api_trace_list :=
       (\<lambda>p. Inr (Some [example_trace ''t1'' (PStr ''DEFAULT''), trace_without_latency_ms ''t2'',
                        example_trace ''t3'' (PStr ''ERROR'')]))\<rparr>"

definition three_observations :: "pyobj list" where
  "three_observations =
     [example_observation ''o1'' (PStr ''DEFAULT''), generation_without_model ''o2'',
      example_observation ''o3'' (PStr ''WARNING'')]"

definition status_is_error :: filter_cond where
  "status_is_error =
     \<lparr>f_field = ''status'', f_operator = EQUALS, f_value = PStr ''ERROR'', f_type = STRING\<rparr>"

definition error_traces_query :: trace_query where
  "error_traces_query = (example_query 20 None)\<lparr>tq_filters := [status_is_error]\<rparr>"

section \<open>Verified properties\<close>

subsection \<open>Sequencing, exceptions and events\<close>

lemmas comp_defs = ret_def raise_exn_def emit_def lift_exn_def bind_comp_def catch_def bind_exn_def

lemma bind_comp_Inr:
  "bind_comp m f = (Inr y, evs) \<longleftrightarrow> (\<exists>x e1 e2. m = (Inr x, e1) \<and> f x = (Inr y, e2) \<and> evs = e1 @ e2)"
  by (auto simp: bind_comp_def split: prod.splits sum.splits)

lemma bind_exn_Inr: "bind_exn r f = Inr y \<longleftrightarrow> (\<exists>x. r = Inr x \<and> f x = Inr y)"
  by (auto simp: bind_exn_def split: sum.splits)

lemma lift_exn_Inr: "lift_exn r = (Inr x, evs) \<longleftrightarrow> r = Inr x \<and> evs = []"
  by (auto simp: lift_exn_def)

lemma ret_Inr: "ret x = (Inr y, evs) \<longleftrightarrow> x = y \<and> evs = []"
  by (auto simp: ret_def)

lemma getattr_Inr: "getattr obj a = Inr v \<longleftrightarrow> obj a = Some v"
  by (auto simp: getattr_def split: option.splits)

lemma as_str_Inr: "as_str v = Inr s \<longleftrightarrow> v = PStr s"
  by (cases v) auto

text \<open>The events of every conversion are log records.\<close>

lemma only_logs_Nil: "only_logs []"
  by (simp add: only_logs_def)

lemma only_logs_append: "only_logs (xs @ ys) \<longleftrightarrow> only_logs xs \<and> only_logs ys"
  by (simp add: only_logs_def)

lemma only_logs_bind:
  assumes "only_logs (snd m)" and "\<And>x. only_logs (snd (f x))"
  shows "only_logs (snd (bind_comp m f))"
proof (cases m)
  case (Pair r evs)
  show ?thesis
  proof (cases r)
    case (Inl e)
    with Pair assms(1) show ?thesis by (simp add: bind_comp_def)
  next
    case (Inr x)
    obtain r' evs' where fx: "f x = (r', evs')" by (cases "f x")
    with assms(2)[of x] have "only_logs evs'" by simp
    with Pair Inr fx assms(1) show ?thesis by (simp add: bind_comp_def only_logs_append)
  qed
qed

lemma only_logs_catch:
  assumes "only_logs (snd m)" and "\<And>e. only_logs (snd (h e))"
  shows "only_logs (snd (catch m h))"
proof (cases m)
  case (Pair r evs)
  show ?thesis
  proof (cases r)
    case (Inr x)
    with Pair assms(1) show ?thesis by (simp add: catch_def)
  next
    case (Inl e)
    obtain r' evs' where he: "h e = (r', evs')" by (cases "h e")
    with assms(2)[of e] have "only_logs evs'" by simp
    with Pair Inl he assms(1) show ?thesis by (simp add: catch_def only_logs_append)
  qed
qed

lemma only_logs_lift: "only_logs (snd (lift_exn r))"
  by (simp add: lift_exn_def only_logs_def)

lemma only_logs_ret: "only_logs (snd (ret x))"
  by (simp add: ret_def only_logs_def)

lemma only_logs_emit_Log: "only_logs (snd (emit (Log l m e)))"
  by (simp add: emit_def only_logs_def)

lemmas only_logs_intros = only_logs_bind only_logs_catch only_logs_lift only_logs_ret only_logs_emit_Log

lemma parse_timestamp_logs: "only_logs (snd (parse_timestamp E v))"
  unfolding parse_timestamp_def parse_timestamp_failed_def
  by (auto split: pyval.splits option.splits intro!: only_logs_intros)

lemma create_span_logs: "only_logs (snd (create_span_from_trace_metadata E trace_item))"
  unfolding create_span_from_trace_metadata_def
  by (intro only_logs_intros parse_timestamp_logs)

lemma observation_body_logs: "only_logs (snd (observation_to_span_body E tid obs))"
  unfolding observation_to_span_body_def
  by (intro only_logs_intros parse_timestamp_logs)

lemma convert_observation_logs: "only_logs (snd (convert_langfuse_observation_to_span E tid obs))"
  unfolding convert_langfuse_observation_to_span_def
  by (intro only_logs_intros observation_body_logs)

lemma convert_observations_logs: "only_logs (snd (convert_observations E trace_item obs))"
  by (induction obs) (auto intro!: only_logs_intros convert_observation_logs)

lemma trace_spans_logs: "only_logs (snd (trace_spans E trace_item observations))"
  unfolding trace_spans_def single_root_span_def
  by (auto split: option.splits list.splits simp del: convert_observations.simps
        intro!: only_logs_intros create_span_logs convert_observations_logs)

lemma trace_body_logs: "only_logs (snd (trace_to_trace_body E trace_item observations))"
  unfolding trace_to_trace_body_def
  by (intro only_logs_intros parse_timestamp_logs trace_spans_logs)

lemma convert_trace_logs:
  "only_logs (snd (convert_langfuse_trace_to_trace E trace_item observations))"
  unfolding convert_langfuse_trace_to_trace_def
  by (intro only_logs_intros trace_body_logs)

lemma convert_traces_logs: "only_logs (snd (convert_traces E items))"
  by (induction items) (auto intro!: only_logs_intros convert_trace_logs)

lemma trace_list_calls_logs: "only_logs evs \<Longrightarrow> trace_list_calls evs = []"
  by (induction evs) (auto simp: only_logs_def trace_list_calls_def List.map_filter_simps split: event.splits)

lemma trace_list_calls_append: "trace_list_calls (xs @ ys) = trace_list_calls xs @ trace_list_calls ys"
  by (simp add: trace_list_calls_def List.map_filter_def)

text \<open>The conversions catch whatever their body raises.\<close>

lemma convert_trace_cases:
  "convert_langfuse_trace_to_trace E trace_item observations =
     (case trace_to_trace_body E trace_item observations of
        (Inl e, evs) \<Rightarrow>
          (Inr None, evs @ [Log ERROR_LEVEL ''Error converting Langfuse trace to TraceData'' (Some e)])
      | (Inr t, evs) \<Rightarrow> (Inr (Some t), evs))"
  by (simp add: convert_langfuse_trace_to_trace_def comp_defs split: prod.splits sum.splits)

lemma convert_observation_cases:
  "convert_langfuse_observation_to_span E tid obs =
     (case observation_to_span_body E tid obs of
        (Inl e, evs) \<Rightarrow>
          (Inr None, evs @ [Log ERROR_LEVEL ''Error converting Langfuse observation to SpanData'' (Some e)])
      | (Inr s, evs) \<Rightarrow> (Inr (Some s), evs))"
  by (simp add: convert_langfuse_observation_to_span_def comp_defs split: prod.splits sum.splits)

lemma convert_trace_returns:
  "fst (convert_langfuse_trace_to_trace E trace_item observations) =
     Inr (case fst (convert_langfuse_trace_to_trace E trace_item observations) of Inl e \<Rightarrow> None | Inr r \<Rightarrow> r)"
  by (simp add: convert_trace_cases split: prod.splits sum.splits)

lemma convert_traces_result:
  "fst (convert_traces E items) = Inr (List.map_filter (converted_trace E) items)"
proof (induction items)
  case Nil
  show ?case by (simp add: ret_def List.map_filter_simps)
next
  case (Cons x xs)
  obtain r evs where c: "convert_langfuse_trace_to_trace E x None = (Inr r, evs)"
    using convert_trace_returns[of E x None]
    by (cases "convert_langfuse_trace_to_trace E x None") auto
  obtain evs' where r: "convert_traces E xs = (Inr (List.map_filter (converted_trace E) xs), evs')"
    using Cons by (cases "convert_traces E xs") auto
  have x: "converted_trace E x = r"
    by (simp add: converted_trace_def c)
  show ?case
    by (simp add: c r x bind_comp_def ret_def List.map_filter_simps split: option.splits)
qed

subsection \<open>Evaluation at the example records\<close>

lemmas conv_defs = getattr_def hasattr_def py_or_def set_items_def add_tags_def
  create_span_from_trace_metadata_def SpanData_def TraceData_def parse_timestamp_def
  parse_timestamp_failed_def
  langfuse_level_to_status_def determine_trace_status_def any_span_error_def
  trace_latency_ms_def seconds_to_ms_def single_root_span_def trace_spans_def trace_to_trace_body_def
  convert_langfuse_trace_to_trace_def add_generation_attributes_def observation_to_span_body_def
  convert_langfuse_observation_to_span_def

lemmas example_defs = example_trace_def trace_without_latency_ms_def example_observation_def
  generation_without_model_def example_span_def example_env_def

subsection \<open>Status derivation\<close>

text \<open>
  Claim C2. The status of a trace is a function of the trace-level indicator (the value of
  \<^verbatim>\<open>trace_item.level\<close>) and of the statuses of the spans, and of nothing else. When the
  indicator is \<^verbatim>\<open>ERROR\<close> the status is ERROR whatever the spans are; when it is
  \<^verbatim>\<open>WARNING\<close> or \<^verbatim>\<open>DEFAULT\<close> and some span has status ERROR the status is ERROR;
  when it is any other value, \<^verbatim>\<open>None\<close> included, the status is UNSET (whether or not
  a span has an error), the function returns rather than raises, and the level of a
  span with such a value maps to UNSET too.
\<close>

theorem status_derivation:
  assumes "trace_item ''level'' = Some level"
  shows "(level = PStr ''ERROR'' \<longrightarrow> determine_trace_status trace_item spans = Inr ERROR) \<and>
         (level \<in> {PStr ''WARNING'', PStr ''DEFAULT''} \<and> list_ex (\<lambda>s. sd_status s = ERROR) spans \<longrightarrow>
            determine_trace_status trace_item spans = Inr ERROR) \<and>
         (level \<notin> {PStr ''ERROR'', PStr ''WARNING'', PStr ''DEFAULT''} \<longrightarrow>
            determine_trace_status trace_item spans = Inr UNSET \<and>
            langfuse_level_to_status level = UNSET) \<and>
         (\<forall>trace_item' spans'.
            trace_item' ''level'' = Some level \<and> map sd_status spans' = map sd_status spans \<longrightarrow>
            determine_trace_status trace_item' spans' = determine_trace_status trace_item spans)"
proof -
  have ex: "any_span_error xs \<longleftrightarrow> ERROR \<in> set (map sd_status xs)" for xs
    unfolding any_span_error_def by (induction xs) auto
  have d: "determine_trace_status item xs =
      (if level = PStr ''ERROR'' then Inr ERROR
       else if level = PStr ''WARNING'' \<or> level = PStr ''DEFAULT'' then
         (if ERROR \<in> set (map sd_status xs) then Inr ERROR else Inr OK)
       else Inr UNSET)" if "item ''level'' = Some level" for item xs
    using that by (simp add: determine_trace_status_def getattr_def bind_exn_def ex)
  have c1: "level = PStr ''ERROR'' \<longrightarrow> determine_trace_status trace_item spans = Inr ERROR"
    by (simp add: d[of trace_item, OF assms])
  have c2: "level \<in> {PStr ''WARNING'', PStr ''DEFAULT''} \<and> list_ex (\<lambda>s. sd_status s = ERROR) spans \<longrightarrow>
            determine_trace_status trace_item spans = Inr ERROR"
    using ex[of spans] by (simp add: d[of trace_item, OF assms] any_span_error_def)
  have c3: "level \<notin> {PStr ''ERROR'', PStr ''WARNING'', PStr ''DEFAULT''} \<longrightarrow>
            determine_trace_status trace_item spans = Inr UNSET \<and>
            langfuse_level_to_status level = UNSET"
    by (simp add: d[of trace_item, OF assms] langfuse_level_to_status_def)
  have c4: "\<forall>trace_item' spans'.
            trace_item' ''level'' = Some level \<and> map sd_status spans' = map sd_status spans \<longrightarrow>
            determine_trace_status trace_item' spans' = determine_trace_status trace_item spans"
    by (simp add: d d[of trace_item, OF assms])
  from c1 c2 c3 c4 show ?thesis by blast
qed

text \<open>The theorem at an ERROR trace, a WARNING trace with a failed span, and a trace with no level.\<close>

theorem status_derivation_witness:
  "determine_trace_status (example_trace ''t1'' (PStr ''ERROR'')) [example_span ''s1'' OK] = Inr ERROR \<and>
   determine_trace_status (example_trace ''t1'' (PStr ''WARNING''))
     [example_span ''s1'' OK, example_span ''s2'' ERROR] = Inr ERROR \<and>
   determine_trace_status (example_trace ''t1'' PNone) [example_span ''s1'' ERROR] = Inr UNSET \<and>
   langfuse_level_to_status PNone = UNSET \<and>
   determine_trace_status (example_trace ''t2'' (PStr ''DEFAULT'')) [example_span ''s3'' ERROR] =
     determine_trace_status (example_trace ''t1'' (PStr ''DEFAULT'')) [example_span ''s1'' ERROR]"
proof -
  have l: "example_trace tid level ''level'' = Some level" for tid level
    by (simp add: example_trace_def)
  have s: "sd_status (example_span sid st) = st" for sid st
    by (simp add: example_span_def)
  note a = status_derivation[of "example_trace ''t1'' (PStr ''ERROR'')" "PStr ''ERROR''" "[example_span ''s1'' OK]", OF l]
  note b = status_derivation[of "example_trace ''t1'' (PStr ''WARNING'')" "PStr ''WARNING''" "[example_span ''s1'' OK, example_span ''s2'' ERROR]", OF l]
  note c = status_derivation[of "example_trace ''t1'' PNone" "PNone" "[example_span ''s1'' ERROR]", OF l]
  note d = status_derivation[of "example_trace ''t1'' (PStr ''DEFAULT'')" "PStr ''DEFAULT''" "[example_span ''s1'' ERROR]", OF l]
  have 1: "determine_trace_status (example_trace ''t1'' (PStr ''ERROR'')) [example_span ''s1'' OK] = Inr ERROR"
    using a[THEN conjunct1] by simp
  have 2: "determine_trace_status (example_trace ''t1'' (PStr ''WARNING''))
     [example_span ''s1'' OK, example_span ''s2'' ERROR] = Inr ERROR"
    using b[THEN conjunct2, THEN conjunct1] by (simp add: s)
  have 3: "determine_trace_status (example_trace ''t1'' PNone) [example_span ''s1'' ERROR] = Inr UNSET \<and>
      langfuse_level_to_status PNone = UNSET"
    using c[THEN conjunct2, THEN conjunct2, THEN conjunct1] by simp
  have 4: "determine_trace_status (example_trace ''t2'' (PStr ''DEFAULT'')) [example_span ''s3'' ERROR] =
     determine_trace_status (example_trace ''t1'' (PStr ''DEFAULT'')) [example_span ''s1'' ERROR]"
    using d[THEN conjunct2, THEN conjunct2, THEN conjunct2, rule_format,
        of "example_trace ''t2'' (PStr ''DEFAULT'')" "[example_span ''s3'' ERROR]"]
    by (simp add: s l)
  from 1 2 3 4 show ?thesis by simp
qed

subsection \<open>Every converted trace has a span\<close>

lemma SpanData_Inr:
  "SpanData tid sid parent opn svc st dur stat attrs = Inr s \<Longrightarrow>
     tid = PStr (sd_trace_id s) \<and> sid = PStr (sd_span_id s) \<and>
     as_optional_str parent = Inr (sd_parent_span_id s)"
  by (auto simp: SpanData_def bind_exn_Inr as_str_Inr)

lemma TraceData_Inr:
  "TraceData tid spans st dur svc op stat = Inr t \<Longrightarrow>
     tid = PStr (td_trace_id t) \<and> td_spans t = spans"
  by (auto simp: TraceData_def bind_exn_Inr as_str_Inr)

lemma create_span_ids:
  assumes "create_span_from_trace_metadata E trace_item = (Inr s, evs)"
  shows "trace_item ''id'' = Some (PStr (sd_span_id s)) \<and> sd_trace_id s = sd_span_id s \<and>
         sd_parent_span_id s = None"
  using assms unfolding create_span_from_trace_metadata_def
  by (auto simp: bind_comp_Inr lift_exn_Inr ret_Inr getattr_Inr dest!: SpanData_Inr)

lemma single_root_span_ids:
  assumes "single_root_span E trace_item = (Inr spans, evs)"
  shows "\<exists>s. spans = [s] \<and> trace_item ''id'' = Some (PStr (sd_span_id s)) \<and>
           sd_trace_id s = sd_span_id s \<and> sd_parent_span_id s = None"
  using assms unfolding single_root_span_def
  by (auto simp: bind_comp_Inr ret_Inr dest!: create_span_ids)

lemma trace_spans_nonempty:
  assumes "trace_spans E trace_item observations = (Inr spans, evs)"
  shows "spans \<noteq> []"
proof (cases "data_or_empty observations")
  case Nil
  then have "trace_spans E trace_item observations = single_root_span E trace_item"
    by (auto simp: trace_spans_def data_or_empty_def split: option.splits list.splits)
  with assms show ?thesis by (auto dest!: single_root_span_ids)
next
  case (Cons obs rest)
  then have o: "observations = Some (obs # rest)"
    by (auto simp: data_or_empty_def split: option.splits)
  from assms obtain xs e1 e2 where
    c: "convert_observations E trace_item (obs # rest) = (Inr xs, e1)" and
    r: "(if xs = [] then single_root_span E trace_item else ret xs) = (Inr spans, e2)"
    unfolding o trace_spans_def by (auto simp: bind_comp_Inr simp del: convert_observations.simps)
  show ?thesis
  proof (cases "xs = []")
    case True
    with r show ?thesis by (auto dest!: single_root_span_ids)
  next
    case False
    with r show ?thesis by (simp add: ret_Inr)
  qed
qed

lemma trace_spans_no_observations:
  assumes "trace_spans E trace_item observations = (Inr spans, evs)"
    and "data_or_empty observations = []"
  shows "\<exists>s. spans = [s] \<and> trace_item ''id'' = Some (PStr (sd_span_id s)) \<and>
           sd_trace_id s = sd_span_id s \<and> sd_parent_span_id s = None"
proof -
  from assms(2) have "trace_spans E trace_item observations = single_root_span E trace_item"
    by (auto simp: trace_spans_def data_or_empty_def split: option.splits list.splits)
  with assms(1) show ?thesis by (auto dest!: single_root_span_ids)
qed

lemma trace_body_result:
  assumes "trace_to_trace_body E trace_item observations = (Inr t, evs)"
  shows "\<exists>e1. trace_spans E trace_item observations = (Inr (td_spans t), e1) \<and>
           trace_item ''id'' = Some (PStr (td_trace_id t))"
  using assms unfolding trace_to_trace_body_def
  by (auto simp: bind_comp_Inr lift_exn_Inr getattr_Inr dest!: TraceData_Inr)

lemma convert_trace_Some:
  assumes "fst (convert_langfuse_trace_to_trace E trace_item observations) = Inr (Some t)"
  shows "\<exists>evs. trace_to_trace_body E trace_item observations = (Inr t, evs)"
  using assms by (auto simp: convert_trace_cases split: prod.splits sum.splits)

text \<open>
  Claim C3. Every \<^verbatim>\<open>TraceData\<close> that \<^verbatim>\<open>_convert_langfuse_trace_to_trace\<close> produces has
  at least one span. When the trace comes with no observations (\<^verbatim>\<open>None\<close> or an empty
  list), the \<^verbatim>\<open>TraceData\<close> has exactly one span, the root synthesized from the trace
  metadata: its span id and its trace id are the trace id of the trace and it has no
  parent.
\<close>

theorem converted_trace_has_span:
  assumes "fst (convert_langfuse_trace_to_trace E trace_item observations) = Inr (Some trace)"
  shows "td_spans trace \<noteq> [] \<and>
         (data_or_empty observations = [] \<longrightarrow>
            (\<exists>root. td_spans trace = [root] \<and> sd_span_id root = td_trace_id trace \<and>
               sd_trace_id root = td_trace_id trace \<and> sd_parent_span_id root = None))"
proof -
  from convert_trace_Some[OF assms] obtain evs where
    b: "trace_to_trace_body E trace_item observations = (Inr trace, evs)" ..
  from trace_body_result[OF b] obtain e1 where
    s: "trace_spans E trace_item observations = (Inr (td_spans trace), e1)" and
    i: "trace_item ''id'' = Some (PStr (td_trace_id trace))" by blast
  have 1: "td_spans trace \<noteq> []"
    using trace_spans_nonempty[OF s] .
  have 2: "\<exists>root. td_spans trace = [root] \<and> sd_span_id root = td_trace_id trace \<and>
               sd_trace_id root = td_trace_id trace \<and> sd_parent_span_id root = None"
    if "data_or_empty observations = []"
  proof -
    from trace_spans_no_observations[OF s that] obtain r where
      r: "td_spans trace = [r]" "trace_item ''id'' = Some (PStr (sd_span_id r))"
         "sd_trace_id r = sd_span_id r" "sd_parent_span_id r = None" by blast
    from r(2) i have "sd_span_id r = td_trace_id trace" by simp
    with r show ?thesis by simp
  qed
  from 1 2 show ?thesis by blast
qed

text \<open>
  The theorem at the trace \<open>t1\<close> converted without observations, and at a trace converted
  with two observations of which the second fails.
\<close>

theorem converted_trace_has_span_witness:
  "(\<exists>trace root.
      fst (convert_langfuse_trace_to_trace example_env (example_trace ''t1'' (PStr ''DEFAULT'')) None) =
        Inr (Some trace) \<and>
      td_trace_id trace = ''t1'' \<and> td_spans trace = [root] \<and> sd_span_id root = ''t1'' \<and>
      sd_trace_id root = ''t1'' \<and> sd_parent_span_id root = None) \<and>
   (\<exists>trace.
      fst (convert_langfuse_trace_to_trace example_env (trace_without_latency_ms ''t2'')
             (Some [example_observation ''o1'' (PStr ''ERROR''), generation_without_model ''o2''])) =
        Inr (Some trace) \<and>
      td_spans trace \<noteq> [])"
proof -
  have "\<exists>trace.
      fst (convert_langfuse_trace_to_trace example_env (example_trace ''t1'' (PStr ''DEFAULT'')) None) =
        Inr (Some trace) \<and> td_trace_id trace = ''t1''"
    by (simp add: comp_defs conv_defs example_defs)
  then obtain trace where
    c: "fst (convert_langfuse_trace_to_trace example_env (example_trace ''t1'' (PStr ''DEFAULT'')) None) =
        Inr (Some trace)" and i: "td_trace_id trace = ''t1''" by blast
  have n: "data_or_empty (None :: pyobj list option) = []"
    by (simp add: data_or_empty_def)
  from converted_trace_has_span[OF c] n i
  have 1: "\<exists>root. td_spans trace = [root] \<and> sd_span_id root = ''t1'' \<and>
      sd_trace_id root = ''t1'' \<and> sd_parent_span_id root = None" by simp
  have "\<exists>trace.
      fst (convert_langfuse_trace_to_trace example_env (trace_without_latency_ms ''t2'')
             (Some [example_observation ''o1'' (PStr ''ERROR''), generation_without_model ''o2''])) =
        Inr (Some trace)"
    by (simp add: comp_defs conv_defs example_defs)
  then obtain trace' where
    c': "fst (convert_langfuse_trace_to_trace example_env (trace_without_latency_ms ''t2'')
             (Some [example_observation ''o1'' (PStr ''ERROR''), generation_without_model ''o2''])) =
        Inr (Some trace')" by blast
  from converted_trace_has_span[OF c'] have 2: "td_spans trace' \<noteq> []" by simp
  from c i 1 c' 2 show ?thesis by blast
qed

subsection \<open>Fetching one trace\<close>

lemmas example_env_defs = env_latency_in_seconds_def env_without_level_def env_unreachable_def
  env_observations_unreachable_def trace_without_level_def example_query_def

lemma apply_filters_Nil: "apply_filters co resolve items [] = items"
  by (simp add: apply_filters_def)

lemma get_trace_cases:
  "get_trace E tid =
     (case api_trace_get E tid of
        Inl e \<Rightarrow>
          (Inl e, [Log DEBUG ''Fetching trace'' None, Call_trace_get tid,
                   Log ERROR_LEVEL ''Error fetching trace'' (Some e)])
      | Inr trace_item \<Rightarrow>
          (case api_observations_get_many E tid of
             Inl e \<Rightarrow>
               (Inl e, [Log DEBUG ''Fetching trace'' None, Call_trace_get tid,
                        Call_observations_get_many tid,
                        Log ERROR_LEVEL ''Error fetching trace'' (Some e)])
           | Inr response \<Rightarrow>
               (fst (convert_langfuse_trace_to_trace E trace_item (Some (data_or_empty response))),
                [Log DEBUG ''Fetching trace'' None, Call_trace_get tid,
                 Call_observations_get_many tid] @
                snd (convert_langfuse_trace_to_trace E trace_item (Some (data_or_empty response))))))"
proof (cases "api_trace_get E tid")
  case (Inl e)
  then show ?thesis by (simp add: get_trace_def comp_defs)
next
  case (Inr trace_item)
  show ?thesis
  proof (cases "api_observations_get_many E tid")
    case (Inl e)
    with Inr show ?thesis by (simp add: get_trace_def comp_defs)
  next
    case r: (Inr response)
    obtain x evs where
      c: "convert_langfuse_trace_to_trace E trace_item (Some (data_or_empty response)) = (Inr x, evs)"
      using convert_trace_returns[of E trace_item "Some (data_or_empty response)"]
      by (cases "convert_langfuse_trace_to_trace E trace_item (Some (data_or_empty response))") auto
    from Inr r c show ?thesis by (simp add: get_trace_def comp_defs)
  qed
qed

text \<open>
  Claim C10. When the two backend calls of \<^verbatim>\<open>get_trace\<close> succeed and the body of the
  conversion of the fetched record raises an exception, the conversion catches it, logs
  it and returns \<^verbatim>\<open>None\<close>, and \<^verbatim>\<open>get_trace\<close> returns \<^verbatim>\<open>None\<close>: it neither raises
  nor returns a \<^verbatim>\<open>TraceData\<close>.
\<close>

theorem get_trace_conversion_failure:
  assumes "api_trace_get E tid = Inr trace_item"
    and "api_observations_get_many E tid = Inr response"
    and "fst (trace_to_trace_body E trace_item (Some (data_or_empty response))) = Inl e"
  shows "fst (convert_langfuse_trace_to_trace E trace_item (Some (data_or_empty response))) = Inr None \<and>
         fst (get_trace E tid) = Inr None \<and>
         Log ERROR_LEVEL ''Error converting Langfuse trace to TraceData'' (Some e)
           \<in> set (snd (get_trace E tid))"
proof -
  obtain evs where b: "trace_to_trace_body E trace_item (Some (data_or_empty response)) = (Inl e, evs)"
    using assms(3) by (cases "trace_to_trace_body E trace_item (Some (data_or_empty response))") auto
  have c: "convert_langfuse_trace_to_trace E trace_item (Some (data_or_empty response)) =
      (Inr None, evs @ [Log ERROR_LEVEL ''Error converting Langfuse trace to TraceData'' (Some e)])"
    by (simp add: convert_trace_cases b)
  show ?thesis
    by (simp add: get_trace_cases assms(1,2) c)
qed

text \<open>
  The theorem at a backend whose trace record has its latency under \<^verbatim>\<open>latency\<close>: with
  no observations the root span is built from the trace, which reads \<^verbatim>\<open>latency_ms\<close>.
\<close>

theorem get_trace_conversion_failure_witness:
  "fst (convert_langfuse_trace_to_trace env_latency_in_seconds (trace_without_latency_ms ''t7'')
          (Some [])) = Inr None \<and>
   fst (get_trace env_latency_in_seconds ''t7'') = Inr None \<and>
   Log ERROR_LEVEL ''Error converting Langfuse trace to TraceData''
       (Some (Exn ''AttributeError'' ''latency_ms''))
     \<in> set (snd (get_trace env_latency_in_seconds ''t7''))"
proof -
  have 1: "api_trace_get env_latency_in_seconds ''t7'' = Inr (trace_without_latency_ms ''t7'')"
    by (simp add: env_latency_in_seconds_def)
  have 2: "api_observations_get_many env_latency_in_seconds ''t7'' = Inr (Some [])"
    by (simp add: env_latency_in_seconds_def example_env_def)
  have 3: "fst (trace_to_trace_body env_latency_in_seconds (trace_without_latency_ms ''t7'')
             (Some (data_or_empty (Some [])))) = Inl (Exn ''AttributeError'' ''latency_ms'')"
    by (simp add: comp_defs conv_defs example_defs example_env_defs data_or_empty_def)
  from get_trace_conversion_failure[OF 1 2 3] show ?thesis
    by (simp add: data_or_empty_def)
qed

text \<open>
  Claim C4 says that \<^verbatim>\<open>get_trace\<close> has three outcomes only: the \<^verbatim>\<open>TraceData\<close>,
  \<^verbatim>\<open>NotFoundError\<close> or \<^verbatim>\<open>BackendError\<close>. At a backend whose trace record has no
  \<^verbatim>\<open>level\<close> attribute, \<^verbatim>\<open>get_trace\<close> returns \<^verbatim>\<open>None\<close>, which is none of the three;
  and at a backend whose SDK raises \<^verbatim>\<open>ConnectionError\<close>, \<^verbatim>\<open>get_trace\<close> fails with that
  \<^verbatim>\<open>ConnectionError\<close> itself.
\<close>

theorem get_trace_returns_None_counterexample:
  "fst (get_trace env_without_level ''t9'') = Inr None \<and>
   fst (get_trace env_unreachable ''t9'') = Inl (Exn ''ConnectionError'' ''connection refused'')"
proof -
  have 1: "fst (get_trace env_without_level ''t9'') = Inr None"
    by (simp add: get_trace_cases comp_defs conv_defs example_defs example_env_defs
          data_or_empty_def)
  have 2: "fst (get_trace env_unreachable ''t9'') =
      Inl (Exn ''ConnectionError'' ''connection refused'')"
    by (simp add: get_trace_cases env_unreachable_def)
  from 1 2 show ?thesis by simp
qed

text \<open>
  Claim C4, amended. When the call that fetches the trace raises, or the call that
  fetches its observations raises, \<^verbatim>\<open>get_trace\<close> logs the exception and fails with that
  same exception, unchanged (the module maps it to no error class of its own). When both
  calls succeed \<^verbatim>\<open>get_trace\<close> does not raise, and when the conversion of the fetched
  record gives a \<^verbatim>\<open>TraceData\<close>, that is the result.
\<close>

theorem get_trace_outcomes:
  "(api_trace_get E tid = Inl e \<longrightarrow>
      fst (get_trace E tid) = Inl e \<and>
      Log ERROR_LEVEL ''Error fetching trace'' (Some e) \<in> set (snd (get_trace E tid))) \<and>
   (api_trace_get E tid = Inr trace_item \<and> api_observations_get_many E tid = Inl e \<longrightarrow>
      fst (get_trace E tid) = Inl e \<and>
      Log ERROR_LEVEL ''Error fetching trace'' (Some e) \<in> set (snd (get_trace E tid))) \<and>
   (api_trace_get E tid = Inr trace_item \<and> api_observations_get_many E tid = Inr response \<longrightarrow>
      (\<exists>r. fst (get_trace E tid) = Inr r) \<and>
      (fst (convert_langfuse_trace_to_trace E trace_item (Some (data_or_empty response))) =
         Inr (Some trace) \<longrightarrow> fst (get_trace E tid) = Inr (Some trace)))"
proof -
  have 1: "api_trace_get E tid = Inl e \<longrightarrow>
      fst (get_trace E tid) = Inl e \<and>
      Log ERROR_LEVEL ''Error fetching trace'' (Some e) \<in> set (snd (get_trace E tid))"
    by (simp add: get_trace_cases)
  have 2: "api_trace_get E tid = Inr trace_item \<and> api_observations_get_many E tid = Inl e \<longrightarrow>
      fst (get_trace E tid) = Inl e \<and>
      Log ERROR_LEVEL ''Error fetching trace'' (Some e) \<in> set (snd (get_trace E tid))"
    by (simp add: get_trace_cases)
  have 3: "api_trace_get E tid = Inr trace_item \<and> api_observations_get_many E tid = Inr response \<longrightarrow>
      (\<exists>r. fst (get_trace E tid) = Inr r) \<and>
      (fst (convert_langfuse_trace_to_trace E trace_item (Some (data_or_empty response))) =
         Inr (Some trace) \<longrightarrow> fst (get_trace E tid) = Inr (Some trace))"
    using convert_trace_returns[of E trace_item "Some (data_or_empty response)"]
    by (auto simp: get_trace_cases)
  from 1 2 3 show ?thesis by blast
qed

text \<open>
  The theorem at a backend that cannot be reached, at one whose observations cannot be
  fetched, and at the example backend, where the trace \<open>t1\<close> is returned.
\<close>

theorem get_trace_outcomes_witness:
  "fst (get_trace env_unreachable ''t1'') = Inl (Exn ''ConnectionError'' ''connection refused'') \<and>
   Log ERROR_LEVEL ''Error fetching trace'' (Some (Exn ''ConnectionError'' ''connection refused''))
     \<in> set (snd (get_trace env_unreachable ''t1'')) \<and>
   fst (get_trace env_observations_unreachable ''t1'') =
     Inl (Exn ''ConnectionError'' ''connection refused'') \<and>
   (\<exists>trace. fst (get_trace example_env ''t1'') = Inr (Some trace) \<and> td_trace_id trace = ''t1'')"
proof -
  let ?e = "Exn ''ConnectionError'' ''connection refused''"
  have a: "api_trace_get env_unreachable ''t1'' = Inl ?e"
    by (simp add: env_unreachable_def)
  have b: "api_trace_get env_observations_unreachable ''t1'' =
        Inr (example_trace ''t1'' (PStr ''DEFAULT'')) \<and>
      api_observations_get_many env_observations_unreachable ''t1'' = Inl ?e"
    by (simp add: env_observations_unreachable_def example_env_def)
  have c: "api_trace_get example_env ''t1'' = Inr (example_trace ''t1'' (PStr ''DEFAULT'')) \<and>
      api_observations_get_many example_env ''t1'' = Inr (Some [])"
    by (simp add: example_env_def)
  have "\<exists>trace. fst (convert_langfuse_trace_to_trace example_env
           (example_trace ''t1'' (PStr ''DEFAULT'')) (Some (data_or_empty (Some [])))) =
         Inr (Some trace) \<and> td_trace_id trace = ''t1''"
    by (simp add: comp_defs conv_defs example_defs data_or_empty_def)
  then obtain trace where
    d: "fst (convert_langfuse_trace_to_trace example_env
           (example_trace ''t1'' (PStr ''DEFAULT'')) (Some (data_or_empty (Some [])))) =
         Inr (Some trace)" and i: "td_trace_id trace = ''t1''" by blast
  from get_trace_outcomes[of env_unreachable "''t1''" ?e] a
  have 1: "fst (get_trace env_unreachable ''t1'') = Inl ?e \<and>
      Log ERROR_LEVEL ''Error fetching trace'' (Some ?e) \<in> set (snd (get_trace env_unreachable ''t1''))"
    by blast
  from get_trace_outcomes[of env_observations_unreachable "''t1''" ?e
      "example_trace ''t1'' (PStr ''DEFAULT'')"] b
  have 2: "fst (get_trace env_observations_unreachable ''t1'') = Inl ?e"
    by blast
  from get_trace_outcomes[of example_env "''t1''" ?e "example_trace ''t1'' (PStr ''DEFAULT'')"
      "Some []" trace] c d
  have 3: "fst (get_trace example_env ''t1'') = Inr (Some trace)"
    by blast
  from 1 2 3 i show ?thesis by blast
qed

subsection \<open>The health check\<close>

text \<open>
  Claim C9. \<^verbatim>\<open>health_check\<close> never raises. It issues one \<^verbatim>\<open>api.trace.list(limit=1)\<close>
  call; when the call returns, the response is healthy, with the backend name
  \<^verbatim>\<open>langfuse\<close> and the url of the backend and no error; when the call raises, the
  exception is logged and the response is unhealthy with \<^verbatim>\<open>str(e)\<close> in its error field.
\<close>

theorem health_check_never_raises:
  "(\<exists>r. fst (health_check E) = Inr r) \<and>
   (case api_trace_list E (no_params\<lparr>p_limit := Some 1\<rparr>) of
      Inr response \<Rightarrow>
        health_check E =
          (Inr \<lparr>hc_status = ''healthy'', hc_backend = ''langfuse'', hc_url = url E, hc_error = None\<rparr>,
           [Call_trace_list (no_params\<lparr>p_limit := Some 1\<rparr>)])
    | Inl e \<Rightarrow>
        health_check E =
          (Inr \<lparr>hc_status = ''unhealthy'', hc_backend = ''langfuse'', hc_url = url E,
                hc_error = Some (exn_str e)\<rparr>,
           [Call_trace_list (no_params\<lparr>p_limit := Some 1\<rparr>),
            Log ERROR_LEVEL ''Health check failed'' (Some e)]))"
  by (cases "api_trace_list E (no_params\<lparr>p_limit := Some 1\<rparr>)")
     (simp_all add: health_check_def comp_defs)

text \<open>The theorem at the example backend and at a backend that cannot be reached.\<close>

theorem health_check_never_raises_witness:
  "fst (health_check example_env) =
     Inr \<lparr>hc_status = ''healthy'', hc_backend = ''langfuse'', hc_url = ''https://cloud.langfuse.com'',
          hc_error = None\<rparr> \<and>
   fst (health_check env_unreachable) =
     Inr \<lparr>hc_status = ''unhealthy'', hc_backend = ''langfuse'', hc_url = ''https://cloud.langfuse.com'',
          hc_error = Some ''connection refused''\<rparr>"
  using health_check_never_raises[of example_env] health_check_never_raises[of env_unreachable]
  by (simp add: example_env_def env_unreachable_def)

subsection \<open>Searching traces\<close>

lemma search_traces_cases:
  "search_traces E query =
     (case api_trace_list E (trace_list_params E query) of
        Inl e \<Rightarrow>
          (Inl e, [Log DEBUG ''Searching traces with query'' None,
                   Call_trace_list (trace_list_params E query),
                   Log ERROR_LEVEL ''Error querying Langfuse'' (Some e)])
      | Inr response \<Rightarrow>
          (Inr (apply_filters (coerce E) trace_field
                  (List.map_filter (converted_trace E) (data_or_empty response))
                  (client_filters query)),
           [Log DEBUG ''Searching traces with query'' None,
            Call_trace_list (trace_list_params E query),
            Log DEBUG ''Found traces from Langfuse'' None] @
           snd (convert_traces E (data_or_empty response)) @
           (if client_filters query \<noteq> [] then [Log INFO ''Applying filters client-side'' None]
            else [])))"
proof (cases "api_trace_list E (trace_list_params E query)")
  case (Inl e)
  then show ?thesis by (simp add: search_traces_def comp_defs)
next
  case (Inr response)
  obtain evs where c: "convert_traces E (data_or_empty response) =
      (Inr (List.map_filter (converted_trace E) (data_or_empty response)), evs)"
    using convert_traces_result[of E "data_or_empty response"]
    by (cases "convert_traces E (data_or_empty response)") auto
  from Inr c show ?thesis
    by (simp add: search_traces_def comp_defs apply_filters_Nil)
qed

lemma trace_list_calls_simps:
  "trace_list_calls [] = []"
  "trace_list_calls (Log l m x # evs) = trace_list_calls evs"
  "trace_list_calls (Call_trace_list p # evs) = p # trace_list_calls evs"
  by (simp_all add: trace_list_calls_def List.map_filter_simps)

lemma search_traces_calls:
  "trace_list_calls (snd (search_traces E query)) = [trace_list_params E query]"
proof (cases "api_trace_list E (trace_list_params E query)")
  case (Inl e)
  then show ?thesis
    by (simp add: search_traces_cases trace_list_calls_simps)
next
  case (Inr response)
  have "trace_list_calls (snd (convert_traces E (data_or_empty response))) = []"
    by (rule trace_list_calls_logs[OF convert_traces_logs])
  with Inr show ?thesis
    by (simp add: search_traces_cases trace_list_calls_append trace_list_calls_simps)
qed

lemma length_map_filter_le: "length (List.map_filter f xs) \<le> length xs"
  by (simp add: List.map_filter_def)

lemma length_apply_filters_le: "length (apply_filters co resolve items fs) \<le> length items"
  by (simp add: apply_filters_def)

lemma trace_list_params_limit: "p_limit (trace_list_params E query) = Some (min (tq_limit query) 100)"
  by (simp add: trace_list_params_def Let_def split: option.splits list.splits)

lemma trace_list_params_from:
  "p_from_timestamp (trace_list_params E query) =
     Some (case tq_start_time query of None \<Rightarrow> now E - timedelta_days 1 | Some t \<Rightarrow> t)"
  by (simp add: trace_list_params_def Let_def split: option.splits list.splits)

lemmas query_defs = get_all_filters_def span_get_all_filters_def shortcut_filters_def
  shortcut_filter_def client_filters_def get_supported_operators_def trace_list_params_def
  span_trace_query_def no_params_def data_or_empty_def

lemmas engine_defs = apply_filters_def filter_matches_def operator_matches_def span_field_def
  trace_field_def status_name_def

lemmas example_query_defs = env_three_traces_def three_observations_def status_is_error_def
  error_traces_query_def example_span_query_def

text \<open>
  Claim C7. \<^verbatim>\<open>search_traces\<close> issues exactly one \<^verbatim>\<open>api.trace.list\<close> call, with the
  limit \<^verbatim>\<open>min(query.limit, 100)\<close>: a limit above 100 is clamped to 100. The limit never
  makes \<^verbatim>\<open>search_traces\<close> raise: it raises exactly when the remote call raises. When the
  backend returns no more records than the limit it was given, the result has at most
  100 traces.
\<close>

theorem search_traces_limit_clamped:
  "trace_list_calls (snd (search_traces E query)) = [trace_list_params E query] \<and>
   p_limit (trace_list_params E query) = Some (min (tq_limit query) 100) \<and>
   ((\<exists>e. fst (search_traces E query) = Inl e) \<longleftrightarrow>
      (\<exists>e. api_trace_list E (trace_list_params E query) = Inl e)) \<and>
   (api_trace_list E (trace_list_params E query) = Inr response \<and>
    int (length (data_or_empty response)) \<le> min (tq_limit query) 100 \<longrightarrow>
      (\<exists>traces. fst (search_traces E query) = Inr traces \<and> length traces \<le> 100))"
proof -
  have 3: "(\<exists>e. fst (search_traces E query) = Inl e) \<longleftrightarrow>
      (\<exists>e. api_trace_list E (trace_list_params E query) = Inl e)"
    by (cases "api_trace_list E (trace_list_params E query)") (simp_all add: search_traces_cases)
  have 4: "\<exists>traces. fst (search_traces E query) = Inr traces \<and> length traces \<le> 100"
    if r: "api_trace_list E (trace_list_params E query) = Inr response"
      and l: "int (length (data_or_empty response)) \<le> min (tq_limit query) 100"
  proof -
    let ?ts = "apply_filters (coerce E) trace_field
                  (List.map_filter (converted_trace E) (data_or_empty response))
                  (client_filters query)"
    have "length ?ts \<le> length (List.map_filter (converted_trace E) (data_or_empty response))"
      by (rule length_apply_filters_le)
    also have "\<dots> \<le> length (data_or_empty response)"
      by (rule length_map_filter_le)
    finally have "length ?ts \<le> 100" using l by simp
    moreover have "fst (search_traces E query) = Inr ?ts"
      by (simp add: search_traces_cases r)
    ultimately show ?thesis by blast
  qed
  from search_traces_calls[of E query] trace_list_params_limit[of E query] 3 4
  show ?thesis by blast
qed

text \<open>The theorem at a query with limit 500.\<close>

theorem search_traces_limit_clamped_witness:
  "trace_list_calls (snd (search_traces example_env (example_query 500 None))) =
     [trace_list_params example_env (example_query 500 None)] \<and>
   p_limit (trace_list_params example_env (example_query 500 None)) = Some 100 \<and>
   (\<exists>traces. fst (search_traces example_env (example_query 500 None)) = Inr traces \<and>
      length traces \<le> 100)"
proof -
  have r: "api_trace_list example_env (trace_list_params example_env (example_query 500 None)) =
      Inr (Some [example_trace ''t1'' (PStr ''DEFAULT'')])"
    by (simp add: example_env_def)
  have l: "int (length (data_or_empty (Some [example_trace ''t1'' (PStr ''DEFAULT'')]))) \<le>
      min (tq_limit (example_query 500 None)) 100"
    by (simp add: data_or_empty_def example_query_def)
  have m: "min (tq_limit (example_query 500 None)) 100 = 100"
    by (simp add: example_query_def)
  from search_traces_limit_clamped[of example_env "example_query 500 None"
      "Some [example_trace ''t1'' (PStr ''DEFAULT'')]"] r l m
  show ?thesis by simp
qed

text \<open>
  Claim C8. The one \<^verbatim>\<open>api.trace.list\<close> call of \<^verbatim>\<open>search_traces\<close> always carries a
  \<^verbatim>\<open>from_timestamp\<close>: for a query without start time it is the current time minus one
  day, and for a query with a start time it is that start time.
\<close>

theorem search_traces_default_window:
  "trace_list_calls (snd (search_traces E query)) = [trace_list_params E query] \<and>
   (tq_start_time query = None \<longrightarrow>
      p_from_timestamp (trace_list_params E query) = Some (now E - timedelta_days 1)) \<and>
   (tq_start_time query = Some t \<longrightarrow>
      p_from_timestamp (trace_list_params E query) = Some t)"
  using search_traces_calls[of E query] trace_list_params_from[of E query]
  by simp

text \<open>The theorem at a query without start time and at a query that starts at 5000.\<close>

theorem search_traces_default_window_witness:
  "trace_list_calls (snd (search_traces example_env (example_query 20 None))) =
     [trace_list_params example_env (example_query 20 None)] \<and>
   p_from_timestamp (trace_list_params example_env (example_query 20 None)) =
     Some (90000000000 - 86400000000) \<and>
   trace_list_calls (snd (search_traces example_env (example_query 20 (Some 5000)))) =
     [trace_list_params example_env (example_query 20 (Some 5000))] \<and>
   p_from_timestamp (trace_list_params example_env (example_query 20 (Some 5000))) = Some 5000"
proof -
  have n: "tq_start_time (example_query 20 None) = None"
    and s: "tq_start_time (example_query 20 (Some 5000)) = Some 5000"
    by (simp_all add: example_query_def)
  have w: "now example_env - timedelta_days 1 = 90000000000 - 86400000000"
    by (simp add: example_env_def timedelta_days_def)
  from search_traces_default_window[of example_env "example_query 20 None"] n w
  have 1: "trace_list_calls (snd (search_traces example_env (example_query 20 None))) =
     [trace_list_params example_env (example_query 20 None)] \<and>
   p_from_timestamp (trace_list_params example_env (example_query 20 None)) =
     Some (90000000000 - 86400000000)" by simp
  from search_traces_default_window[of example_env "example_query 20 (Some 5000)" 5000] s
  have 2: "trace_list_calls (snd (search_traces example_env (example_query 20 (Some 5000)))) =
     [trace_list_params example_env (example_query 20 (Some 5000))] \<and>
   p_from_timestamp (trace_list_params example_env (example_query 20 (Some 5000))) = Some 5000"
    by simp
  from 1 2 show ?thesis by simp
qed

subsection \<open>Searching spans\<close>

lemma snd_bind_ret: "snd (bind_comp m (\<lambda>x. ret (f x))) = snd m"
  by (cases m) (auto simp: bind_comp_def ret_def split: sum.splits)

lemma search_spans_spec_calls:
  "trace_list_calls (snd (search_spans_spec E tq query)) = [trace_list_params E tq]"
  unfolding search_spans_spec_def snd_bind_ret by (rule search_traces_calls)

text \<open>
  Claim C5. \<^verbatim>\<open>search_spans\<close> is the fallback composition the specification prescribes.
  For every span query, the trace query it builds carries the equivalent trace-level
  fields of the span query (its service name, operation name, start time, end time and
  limit), and \<^verbatim>\<open>search_spans\<close> is \<open>search_spans_spec\<close> over that trace query: it
  returns the spans of the traces that \<^verbatim>\<open>search_traces\<close> returns for it, flattened into
  one list and filtered by the filter engine with the filters composed from the span
  query, or raises what \<^verbatim>\<open>search_traces\<close> raises, and it leaves the events of that
  composition after one debug record of its own.
\<close>

theorem search_spans_is_fallback_composition:
  "carries_trace_level_fields query (span_trace_query query) \<and>
   fst (search_spans E query) = fst (search_spans_spec E (span_trace_query query) query) \<and>
   snd (search_spans E query) =
     Log DEBUG ''Searching spans with query'' None #
     snd (search_spans_spec E (span_trace_query query) query)"
proof -
  have 1: "carries_trace_level_fields query (span_trace_query query)"
    by (simp add: carries_trace_level_fields_def span_trace_query_def)
  have 2: "fst (search_spans E query) = fst (search_spans_spec E (span_trace_query query) query) \<and>
      snd (search_spans E query) =
        Log DEBUG ''Searching spans with query'' None #
        snd (search_spans_spec E (span_trace_query query) query)"
  proof (cases "search_traces E (span_trace_query query)")
    case (Pair r evs)
    show ?thesis
    proof (cases r)
      case (Inl e)
      with Pair show ?thesis
        by (simp add: search_spans_def search_spans_spec_def comp_defs)
    next
      case (Inr traces)
      with Pair show ?thesis
        by (simp add: search_spans_def search_spans_spec_def comp_defs apply_filters_Nil)
    qed
  qed
  from 1 2 show ?thesis by simp
qed

text \<open>
  The theorem at the span query with every field set, whose one remote call carries the
  service name, the operation name, the window and the limit of the span query, and at
  span queries for the service \<open>checkout\<close> (one span) and for the service \<open>billing\<close>
  (none).
\<close>

theorem search_spans_is_fallback_composition_witness:
  "carries_trace_level_fields full_span_query (span_trace_query full_span_query) \<and>
   trace_list_calls (snd (search_spans example_env full_span_query)) =
     [\<lparr>p_name = Some ''checkout'', p_session_id = Some ''session-1'',
       p_from_timestamp = Some 5000, p_to_timestamp = Some 9000, p_limit = Some 7,
       p_tag = None\<rparr>] \<and>
   fst (search_spans example_env (example_span_query (Some ''checkout''))) =
     fst (search_spans_spec example_env (span_trace_query (example_span_query (Some ''checkout'')))
            (example_span_query (Some ''checkout''))) \<and>
   (\<exists>sp. fst (search_spans example_env (example_span_query (Some ''checkout''))) = Inr [sp] \<and>
      sd_span_id sp = ''t1'') \<and>
   fst (search_spans example_env (example_span_query (Some ''billing''))) = Inr []"
proof -
  let ?c = "example_span_query (Some ''checkout'')"
  let ?b = "example_span_query (Some ''billing'')"
  note f = search_spans_is_fallback_composition[of full_span_query example_env]
  note c = search_spans_is_fallback_composition[of ?c example_env]
  note b = search_spans_is_fallback_composition[of ?b example_env]
  have p: "trace_list_params example_env (span_trace_query full_span_query) =
      \<lparr>p_name = Some ''checkout'', p_session_id = Some ''session-1'',
       p_from_timestamp = Some 5000, p_to_timestamp = Some 9000, p_limit = Some 7,
       p_tag = None\<rparr>"
    by (simp add: query_defs full_span_query_def)
  from f have 1: "carries_trace_level_fields full_span_query (span_trace_query full_span_query)"
    by simp
  from f have 2: "trace_list_calls (snd (search_spans example_env full_span_query)) =
      [\<lparr>p_name = Some ''checkout'', p_session_id = Some ''session-1'',
       p_from_timestamp = Some 5000, p_to_timestamp = Some 9000, p_limit = Some 7,
       p_tag = None\<rparr>]"
    by (simp add: trace_list_calls_simps search_spans_spec_calls p)
  from c have 3: "fst (search_spans example_env ?c) =
      fst (search_spans_spec example_env (span_trace_query ?c) ?c)"
    by simp
  have "\<exists>sp. fst (search_spans_spec example_env (span_trace_query ?c) ?c) = Inr [sp] \<and>
      sd_span_id sp = ''t1''"
    by (simp add: search_spans_spec_def search_traces_cases converted_trace_def
          List.map_filter_simps comp_defs conv_defs example_defs query_defs engine_defs
          example_query_defs)
  with 3 have 4: "\<exists>sp. fst (search_spans example_env ?c) = Inr [sp] \<and> sd_span_id sp = ''t1''"
    by simp
  have "fst (search_spans_spec example_env (span_trace_query ?b) ?b) = Inr []"
    by (simp add: search_spans_spec_def search_traces_cases converted_trace_def
          List.map_filter_simps comp_defs conv_defs example_defs query_defs engine_defs
          example_query_defs)
  with b have 5: "fst (search_spans example_env ?b) = Inr []"
    by simp
  from 1 2 3 4 5 show ?thesis by simp
qed

subsection \<open>A record that fails to convert\<close>

lemma map_filter_append: "List.map_filter f (xs @ ys) = List.map_filter f xs @ List.map_filter f ys"
  by (simp add: List.map_filter_def)

lemma map_filter_all_Some:
  "list_all (\<lambda>x. f x \<noteq> None) xs \<Longrightarrow> map Some (List.map_filter f xs) = map f xs"
  by (induction xs) (auto simp: List.map_filter_simps split: option.splits)

lemma map_filter_drop_one:
  assumes "list_all (\<lambda>x. f x \<noteq> None) (xs @ ys)" and "f bad = None"
  shows "List.map_filter f (xs @ bad # ys) = List.map_filter f (xs @ ys)"
    and "map Some (List.map_filter f (xs @ bad # ys)) = map f (xs @ ys)"
    and "length (List.map_filter f (xs @ bad # ys)) = length xs + length ys"
proof -
  show 1: "List.map_filter f (xs @ bad # ys) = List.map_filter f (xs @ ys)"
    using assms(2) by (simp add: map_filter_append List.map_filter_simps)
  show 2: "map Some (List.map_filter f (xs @ bad # ys)) = map f (xs @ ys)"
    unfolding 1 by (rule map_filter_all_Some[OF assms(1)])
  have "length (map Some (List.map_filter f (xs @ bad # ys))) = length (map f (xs @ ys))"
    by (simp only: 2)
  then show "length (List.map_filter f (xs @ bad # ys)) = length xs + length ys"
    by simp
qed

lemma convert_traces_events:
  "snd (convert_traces E items) =
     concat (map (\<lambda>x. snd (convert_langfuse_trace_to_trace E x None)) items)"
proof (induction items)
  case Nil
  show ?case by (simp add: ret_def)
next
  case (Cons x xs)
  obtain r evs where c: "convert_langfuse_trace_to_trace E x None = (Inr r, evs)"
    using convert_trace_returns[of E x None]
    by (cases "convert_langfuse_trace_to_trace E x None") auto
  obtain ts evs' where r: "convert_traces E xs = (Inr ts, evs')"
    using convert_traces_result[of E xs] by (cases "convert_traces E xs") auto
  from Cons show ?case
    by (simp add: c r bind_comp_def ret_def)
qed

lemma failed_trace_is_logged:
  assumes "converted_trace E x = None"
  shows "\<exists>e. Log ERROR_LEVEL ''Error converting Langfuse trace to TraceData'' (Some e)
           \<in> set (snd (convert_langfuse_trace_to_trace E x None))"
  using assms
  by (auto simp: converted_trace_def convert_trace_cases split: prod.splits sum.splits)

lemma convert_observation_returns:
  "fst (convert_langfuse_observation_to_span E tid obs) = Inr (converted_span E tid obs)"
  by (simp add: converted_span_def convert_observation_cases split: prod.splits sum.splits)

lemma failed_observation_is_logged:
  assumes "converted_span E tid obs = None"
  shows "\<exists>e. Log ERROR_LEVEL ''Error converting Langfuse observation to SpanData'' (Some e)
           \<in> set (snd (convert_langfuse_observation_to_span E tid obs))"
  using assms
  by (auto simp: converted_span_def convert_observation_cases split: prod.splits sum.splits)

lemma convert_observations_result:
  assumes "trace_item ''id'' = Some tid"
  shows "convert_observations E trace_item obs =
     (Inr (List.map_filter (converted_span E tid) obs),
      concat (map (\<lambda>x. snd (convert_langfuse_observation_to_span E tid x)) obs))"
proof (induction obs)
  case Nil
  show ?case by (simp add: ret_def List.map_filter_simps)
next
  case (Cons x xs)
  obtain evs where c: "convert_langfuse_observation_to_span E tid x =
      (Inr (converted_span E tid x), evs)"
    using convert_observation_returns[of E tid x]
    by (cases "convert_langfuse_observation_to_span E tid x") auto
  from Cons assms show ?case
    by (simp add: c bind_comp_def ret_def lift_exn_def getattr_def List.map_filter_simps
          split: option.splits)
qed

text \<open>
  Claim C6. One record whose conversion fails does not abort the batch. When the
  response of the backend holds a record whose conversion fails among records that all
  convert, \<^verbatim>\<open>search_traces\<close> does not raise; the traces it passes on are exactly the
  conversions of the other records, in their order, as many as there are other records;
  they are its result when the query has no client-side filter (and its result is those
  traces filtered otherwise); and the failure is in the log. The same holds for the
  observations of one trace: when one observation fails to convert among others that
  convert, the spans of the trace are exactly the conversions of the others, and the
  failure is in the log.
\<close>

theorem malformed_record_is_dropped:
  "(api_trace_list E (trace_list_params E query) = Inr response \<and>
    data_or_empty response = before @ malformed # after \<and>
    list_all (\<lambda>x. converted_trace E x \<noteq> None) (before @ after) \<and>
    converted_trace E malformed = None \<longrightarrow>
      (\<exists>traces.
         map Some traces = map (converted_trace E) (before @ after) \<and>
         length traces = length before + length after \<and>
         fst (search_traces E query) =
           Inr (apply_filters (coerce E) trace_field traces (client_filters query)) \<and>
         (client_filters query = [] \<longrightarrow> fst (search_traces E query) = Inr traces) \<and>
         (\<exists>e. Log ERROR_LEVEL ''Error converting Langfuse trace to TraceData'' (Some e)
                \<in> set (snd (search_traces E query))))) \<and>
   (trace_item ''id'' = Some tid \<and>
    list_all (\<lambda>x. converted_span E tid x \<noteq> None) (obs_before @ obs_after) \<and>
    obs_before @ obs_after \<noteq> [] \<and>
    converted_span E tid obs_malformed = None \<longrightarrow>
      (\<exists>spans evs.
         trace_spans E trace_item (Some (obs_before @ obs_malformed # obs_after)) = (Inr spans, evs) \<and>
         map Some spans = map (converted_span E tid) (obs_before @ obs_after) \<and>
         length spans = length obs_before + length obs_after \<and>
         (\<exists>e. Log ERROR_LEVEL ''Error converting Langfuse observation to SpanData'' (Some e)
                \<in> set evs)))"
proof -
  have A: "\<exists>traces.
         map Some traces = map (converted_trace E) (before @ after) \<and>
         length traces = length before + length after \<and>
         fst (search_traces E query) =
           Inr (apply_filters (coerce E) trace_field traces (client_filters query)) \<and>
         (client_filters query = [] \<longrightarrow> fst (search_traces E query) = Inr traces) \<and>
         (\<exists>e. Log ERROR_LEVEL ''Error converting Langfuse trace to TraceData'' (Some e)
                \<in> set (snd (search_traces E query)))"
    if r: "api_trace_list E (trace_list_params E query) = Inr response"
      and d: "data_or_empty response = before @ malformed # after"
      and g: "list_all (\<lambda>x. converted_trace E x \<noteq> None) (before @ after)"
      and b: "converted_trace E malformed = None"
  proof -
    let ?ts = "List.map_filter (converted_trace E) (before @ malformed # after)"
    have 1: "map Some ?ts = map (converted_trace E) (before @ after)"
      using map_filter_drop_one(2)[of "converted_trace E" before after malformed] g b by blast
    have 2: "length ?ts = length before + length after"
      using map_filter_drop_one(3)[of "converted_trace E" before after malformed] g b by blast
    have 3: "fst (search_traces E query) =
        Inr (apply_filters (coerce E) trace_field ?ts (client_filters query))"
      by (simp add: search_traces_cases r d)
    have 4: "client_filters query = [] \<longrightarrow> fst (search_traces E query) = Inr ?ts"
      by (simp add: 3 apply_filters_Nil)
    from failed_trace_is_logged[OF b] obtain e where
      e: "Log ERROR_LEVEL ''Error converting Langfuse trace to TraceData'' (Some e)
            \<in> set (snd (convert_langfuse_trace_to_trace E malformed None))" ..
    have "set (snd (convert_langfuse_trace_to_trace E malformed None))
        \<subseteq> set (snd (search_traces E query))"
      by (auto simp: search_traces_cases r d convert_traces_events)
    with e have 5: "\<exists>e. Log ERROR_LEVEL ''Error converting Langfuse trace to TraceData'' (Some e)
                \<in> set (snd (search_traces E query))" by blast
    from 1 2 3 4 5 show ?thesis by blast
  qed
  have B: "\<exists>spans evs.
         trace_spans E trace_item (Some (obs_before @ obs_malformed # obs_after)) = (Inr spans, evs) \<and>
         map Some spans = map (converted_span E tid) (obs_before @ obs_after) \<and>
         length spans = length obs_before + length obs_after \<and>
         (\<exists>e. Log ERROR_LEVEL ''Error converting Langfuse observation to SpanData'' (Some e)
                \<in> set evs)"
    if i: "trace_item ''id'' = Some tid"
      and g: "list_all (\<lambda>x. converted_span E tid x \<noteq> None) (obs_before @ obs_after)"
      and n: "obs_before @ obs_after \<noteq> []"
      and b: "converted_span E tid obs_malformed = None"
  proof -
    let ?obs = "obs_before @ obs_malformed # obs_after"
    let ?ss = "List.map_filter (converted_span E tid) ?obs"
    let ?evs = "concat (map (\<lambda>x. snd (convert_langfuse_observation_to_span E tid x)) ?obs)"
    have 1: "map Some ?ss = map (converted_span E tid) (obs_before @ obs_after)"
      using map_filter_drop_one(2)[of "converted_span E tid" obs_before obs_after obs_malformed] g b
      by blast
    have 2: "length ?ss = length obs_before + length obs_after"
      using map_filter_drop_one(3)[of "converted_span E tid" obs_before obs_after obs_malformed] g b
      by blast
    from 2 n have ne: "?ss \<noteq> []" by (cases obs_before; cases obs_after) auto
    obtain x xs where o: "?obs = x # xs" by (cases ?obs) auto
    have "trace_spans E trace_item (Some ?obs) =
        bind_comp (convert_observations E trace_item ?obs) (\<lambda>spans.
            if spans = [] then single_root_span E trace_item else ret spans)"
      unfolding o trace_spans_def by simp
    also have "\<dots> = (Inr ?ss, ?evs)"
      unfolding convert_observations_result[of trace_item tid E, OF i] using ne by (simp add: bind_comp_def ret_def)
    finally have 3: "trace_spans E trace_item (Some ?obs) = (Inr ?ss, ?evs)" .
    from failed_observation_is_logged[OF b] obtain e where
      "Log ERROR_LEVEL ''Error converting Langfuse observation to SpanData'' (Some e)
            \<in> set (snd (convert_langfuse_observation_to_span E tid obs_malformed))" ..
    then have 4: "\<exists>e. Log ERROR_LEVEL ''Error converting Langfuse observation to SpanData'' (Some e)
                \<in> set ?evs" by auto
    from 1 2 3 4 show ?thesis by blast
  qed
  from A B show ?thesis by blast
qed

text \<open>
  The theorem at a response of three records whose second has no \<^verbatim>\<open>latency_ms\<close>, and
  at three observations whose second is an LLM call without model and metadata.
\<close>

theorem malformed_record_is_dropped_witness:
  "(\<exists>traces.
      fst (search_traces env_three_traces (example_query 20 None)) = Inr traces \<and>
      length traces = 2 \<and>
      map Some traces = map (converted_trace env_three_traces)
        [example_trace ''t1'' (PStr ''DEFAULT''), example_trace ''t3'' (PStr ''ERROR'')]) \<and>
   (\<exists>e. Log ERROR_LEVEL ''Error converting Langfuse trace to TraceData'' (Some e)
          \<in> set (snd (search_traces env_three_traces (example_query 20 None)))) \<and>
   (\<exists>spans evs.
      trace_spans env_three_traces (example_trace ''t1'' (PStr ''DEFAULT'')) (Some three_observations) =
        (Inr spans, evs) \<and>
      length spans = 2 \<and>
      (\<exists>e. Log ERROR_LEVEL ''Error converting Langfuse observation to SpanData'' (Some e)
             \<in> set evs))"
proof -
  let ?E = env_three_traces
  let ?q = "example_query 20 None"
  let ?t1 = "example_trace ''t1'' (PStr ''DEFAULT'')"
  let ?t2 = "trace_without_latency_ms ''t2''"
  let ?t3 = "example_trace ''t3'' (PStr ''ERROR'')"
  let ?o1 = "example_observation ''o1'' (PStr ''DEFAULT'')"
  let ?o2 = "generation_without_model ''o2''"
  let ?o3 = "example_observation ''o3'' (PStr ''WARNING'')"
  have r: "api_trace_list ?E (trace_list_params ?E ?q) = Inr (Some [?t1, ?t2, ?t3])"
    by (simp add: env_three_traces_def)
  have d: "data_or_empty (Some [?t1, ?t2, ?t3]) = [?t1] @ ?t2 # [?t3]"
    by (simp add: data_or_empty_def)
  have g1: "converted_trace ?E ?t1 \<noteq> None"
    by (simp add: converted_trace_def comp_defs conv_defs example_defs env_three_traces_def)
  have g3: "converted_trace ?E ?t3 \<noteq> None"
    by (simp add: converted_trace_def comp_defs conv_defs example_defs env_three_traces_def)
  from g1 g3 have g: "list_all (\<lambda>x. converted_trace ?E x \<noteq> None) ([?t1] @ [?t3])"
    by simp
  have b: "converted_trace ?E ?t2 = None"
    by (simp add: converted_trace_def comp_defs conv_defs example_defs env_three_traces_def)
  have c: "client_filters ?q = []"
    by (simp add: query_defs example_query_def)
  have i: "?t1 ''id'' = Some (PStr ''t1'')"
    by (simp add: example_trace_def)
  have h1: "converted_span ?E (PStr ''t1'') ?o1 \<noteq> None"
    by (simp add: converted_span_def comp_defs conv_defs example_defs env_three_traces_def)
  have h3: "converted_span ?E (PStr ''t1'') ?o3 \<noteq> None"
    by (simp add: converted_span_def comp_defs conv_defs example_defs env_three_traces_def)
  from h1 h3 have h: "list_all (\<lambda>x. converted_span ?E (PStr ''t1'') x \<noteq> None) ([?o1] @ [?o3])"
    by simp
  have n: "[?o1] @ [?o3] \<noteq> []" by simp
  have hb: "converted_span ?E (PStr ''t1'') ?o2 = None"
    by (simp add: converted_span_def comp_defs conv_defs example_defs env_three_traces_def)
  note m = malformed_record_is_dropped[where E = ?E and query = ?q
      and response = "Some [?t1, ?t2, ?t3]" and before = "[?t1]" and malformed = ?t2
      and after = "[?t3]" and trace_item = ?t1 and tid = "PStr ''t1''"
      and obs_before = "[?o1]" and obs_after = "[?o3]" and obs_malformed = ?o2]
  from m r d g b c
  have A: "\<exists>traces.
      fst (search_traces ?E ?q) = Inr traces \<and> length traces = 2 \<and>
      map Some traces = map (converted_trace ?E) [?t1, ?t3]"
    by auto
  from m r d g b
  have B: "\<exists>e. Log ERROR_LEVEL ''Error converting Langfuse trace to TraceData'' (Some e)
          \<in> set (snd (search_traces ?E ?q))"
    by blast
  from m i h n hb
  have C: "\<exists>spans evs.
      trace_spans ?E ?t1 (Some three_observations) = (Inr spans, evs) \<and>
      length spans = 2 \<and>
      (\<exists>e. Log ERROR_LEVEL ''Error converting Langfuse observation to SpanData'' (Some e)
             \<in> set evs)"
    unfolding three_observations_def by auto
  from A B C show ?thesis by blast
qed

subsection \<open>A filter that is not enforced\<close>

text \<open>
  Claim C1 says that every filter of \<^verbatim>\<open>get_all_filters()\<close> is either translated into a
  parameter of the remote call or applied by the filter engine. It fails at the query
  whose only filter is "status equals ERROR": the operator is among the supported ones,
  so the filter is not given to the filter engine; no parameter of the remote call
  stands for it (the call carries the time window and the limit only); and the trace
  \<open>t1\<close>, whose status is OK, is returned although the filter does not match it.
\<close>

theorem search_traces_drops_equality_filter:
  "get_all_filters error_traces_query = [status_is_error] \<and>
   client_filters error_traces_query = [] \<and>
   trace_list_calls (snd (search_traces example_env error_traces_query)) =
     [\<lparr>p_name = None, p_session_id = None, p_from_timestamp = Some 3600000000,
       p_to_timestamp = None, p_limit = Some 20, p_tag = None\<rparr>] \<and>
   (\<exists>trace. fst (search_traces example_env error_traces_query) = Inr [trace] \<and>
      td_trace_id trace = ''t1'' \<and> td_status trace = OK \<and>
      \<not> filter_matches (coerce example_env) trace_field trace status_is_error)"
proof -
  have 1: "get_all_filters error_traces_query = [status_is_error]"
    by (simp add: query_defs example_query_defs example_query_def)
  have 2: "client_filters error_traces_query = []"
    by (simp add: query_defs example_query_defs example_query_def)
  have 3: "trace_list_params example_env error_traces_query =
      \<lparr>p_name = None, p_session_id = None, p_from_timestamp = Some 3600000000,
       p_to_timestamp = None, p_limit = Some 20, p_tag = None\<rparr>"
    by (simp add: query_defs example_query_defs example_query_def example_env_def timedelta_days_def)
  have 4: "\<exists>trace. fst (search_traces example_env error_traces_query) = Inr [trace] \<and>
      td_trace_id trace = ''t1'' \<and> td_status trace = OK \<and>
      \<not> filter_matches (coerce example_env) trace_field trace status_is_error"
    by (simp add: search_traces_cases 2 apply_filters_Nil converted_trace_def
          List.map_filter_simps comp_defs conv_defs example_defs data_or_empty_def engine_defs
          status_is_error_def)
  from 1 2 3 4 search_traces_calls[of example_env error_traces_query] show ?thesis by simp
qed

end
